theory Spec2Isabelle
  imports Main
begin

section \<open>Board image composition (\<open>src/image-helpers.js\<close>)\<close>

text \<open>
  The module \<open>ImageHelpers\<close> builds the picture of a poker board by pasting card images
  side by side with the image library \<open>lwip\<close> and writing the result to a file. The
  library, the JPEG codec and the file system are outside the repository; they are modelled
  here as far as the module uses them:
  \<^item> an image is its width, its height and its rows of pixels;
  \<^item> the file system is a map from path strings to file contents, and a set of directories;
  \<^item> the codec (\<open>decode\<close>, \<open>encode\<close>), the colour that pasting one pixel over another gives
    (\<open>blend\<close>: the library composites by the alpha channel, in floating point) and the file
    system's willingness to accept a write or a \<open>mkdir\<close> are parameters (a \<open>platform\<close>),
    about which nothing is assumed unless a theorem says so;
  \<^item> a promise is a function from the world to its settled result (\<open>Inl\<close> a rejection,
    \<open>Inr\<close> the resolved value) and the world it leaves behind;
  \<^item> the world also records every library call made (\<open>calls\<close>), so that what ran, and in
    which order, can be stated; no function reads the record.
  Paths are compared as strings: two spellings of one file are two keys; that the library
  picks the codec by the extension of the path is not modelled. The helper
  \<open>toBuffer\<close> of the module is called by none of its functions and is left out.
\<close>

subsection \<open>Images and the library operations\<close>

type_synonym colour = "nat \<times> nat \<times> nat \<times> nat"

text \<open>The colour \<open>'white'\<close> of \<open>lwip\<close>: red, green, blue 255 and alpha 100.\<close>

definition white :: colour where
  "white = (255, 255, 255, 100)"

record image =
  width :: nat
  height :: nat
  pixels :: "colour list list"

text \<open>The pixel in column \<open>x\<close> of row \<open>y\<close>.\<close>

definition pixel :: "image \<Rightarrow> nat \<Rightarrow> nat \<Rightarrow> colour" where
  "pixel img x y = pixels img ! y ! x"

datatype error =
    ImageOpenError "string option"
  | PasteError
  | WriteError string
  | MkdirError string

text \<open>\<open>lwip.create(width, height, color)\<close>: a canvas filled with one colour.\<close>

definition lwip_create :: "nat \<Rightarrow> nat \<Rightarrow> colour \<Rightarrow> image" where
  "lwip_create wd ht col = \<lparr>width = wd, height = ht, pixels = replicate ht (replicate wd col)\<rparr>"

text \<open>
  The platform: what the codec makes of bytes and of images, the colour of a pasted pixel
  (first argument) composited over the pixel under it (second argument), and which paths the
  file system lets the program write to and create as directories.
\<close>

record 'b platform =
  decode :: "'b \<Rightarrow> image option"
  encode :: "image \<Rightarrow> 'b"
  blend :: "colour \<Rightarrow> colour \<Rightarrow> colour"
  writable :: "string \<Rightarrow> bool"
  mkdirable :: "string \<Rightarrow> bool"

text \<open>
  \<open>dest.paste(left, top, src)\<close>: \<open>lwip\<close> refuses a pasted image that exceeds the bounds of the
  base image, and otherwise composites every pixel of the pasted image over the pixel it
  covers; the pixels outside the rectangle stay as they are.
\<close>

definition lwip_paste ::
  "'b platform \<Rightarrow> image \<Rightarrow> nat \<Rightarrow> nat \<Rightarrow> image \<Rightarrow> error + image" where
  "lwip_paste P dest left tp src =
     (if left + width src > width dest \<or> tp + height src > height dest then Inl PasteError
      else Inr (dest\<lparr>pixels :=
        map (\<lambda>y. map (\<lambda>x.
               if left \<le> x \<and> x < left + width src \<and> tp \<le> y \<and> y < tp + height src
               then blend P (pixel src (x - left) (y - tp)) (pixel dest x y)
               else pixel dest x y) [0..<width dest]) [0..<height dest]\<rparr>))"

subsection \<open>The world: platform, files, directories and the calls made\<close>

text \<open>The library calls the module makes, with their arguments.\<close>

datatype call =
    Open "string option"
  | Create nat nat colour
  | Paste nat nat
  | Write string

record 'b world =
  files :: "string \<Rightarrow> 'b option"
  dirs :: "string set"
  calls :: "call list"

definition log :: "call \<Rightarrow> 'b world \<Rightarrow> 'b world" where
  "log c w = w\<lparr>calls := calls w @ [c]\<rparr>"

text \<open>
  A JavaScript array of paths: an element is a string or \<open>undefined\<close> (\<open>None\<close>), and an
  index out of range reads \<open>undefined\<close>.
\<close>

definition at :: "'a option list \<Rightarrow> nat \<Rightarrow> 'a option" where
  "at xs i = (if i < length xs then xs ! i else None)"

text \<open>
  \<open>lwip.open(path)\<close>: fails when the path is \<open>undefined\<close>, when there is no such file and
  when the file does not decode.
\<close>

definition lwip_open ::
  "'b platform \<Rightarrow> (string \<Rightarrow> 'b option) \<Rightarrow> string option \<Rightarrow> error + image" where
  "lwip_open P fls f =
     (case f of
        None \<Rightarrow> Inl (ImageOpenError None)
      | Some p \<Rightarrow>
          (case fls p of
             None \<Rightarrow> Inl (ImageOpenError (Some p))
           | Some b \<Rightarrow>
               (case decode P b of
                  None \<Rightarrow> Inl (ImageOpenError (Some p))
                | Some img \<Rightarrow> Inr img)))"

subsection \<open>Promises\<close>

type_synonym ('a, 'b) promise = "'b world \<Rightarrow> (error + 'a) \<times> 'b world"

text \<open>\<open>p.then(f)\<close>: a rejection skips \<open>f\<close> and is passed on.\<close>

definition thenP :: "('a, 'b) promise \<Rightarrow> ('a \<Rightarrow> ('c, 'b) promise) \<Rightarrow> ('c, 'b) promise" where
  "thenP p f w = (case p w of (Inl e, w') \<Rightarrow> (Inl e, w') | (Inr x, w') \<Rightarrow> f x w')"

text \<open>
  \<open>openImage = promisify(lwip.open)\<close> and \<open>createImage = promisify(lwip.create)\<close>
  (lines 6 and 7).
\<close>

definition openImage :: "'b platform \<Rightarrow> string option \<Rightarrow> (image, 'b) promise" where
  "openImage P f w = (lwip_open P (files w) f, log (Open f) w)"

definition createImage :: "nat \<Rightarrow> nat \<Rightarrow> colour \<Rightarrow> (image, 'b) promise" where
  "createImage wd ht col w = (Inr (lwip_create wd ht col), log (Create wd ht col) w)"

subsection \<open>The module\<close>

text \<open>
  \<open>paste(src, dest, x, y)\<close> (lines 80 to 90) calls \<open>dest.paste(x, y, src, callback)\<close> and
  resolves with the image or rejects with the error of the callback.
\<close>

definition paste ::
  "'b platform \<Rightarrow> image \<Rightarrow> image \<Rightarrow> nat \<Rightarrow> nat \<Rightarrow> (image, 'b) promise" where
  "paste P src dest x y w = (lwip_paste P dest x y src, log (Paste x y) w)"

text \<open>
  \<open>writeFile(img, outputFile)\<close> (lines 98 to 108) calls \<open>img.writeFile(outputFile, callback)\<close>
  and resolves with \<open>outputFile\<close> or rejects with the error of the callback.
\<close>

definition writeFile :: "'b platform \<Rightarrow> image \<Rightarrow> string \<Rightarrow> (string, 'b) promise" where
  "writeFile P img outputFile w =
     (if writable P outputFile
      then (Inr outputFile,
            log (Write outputFile) (w\<lparr>files := (files w)(outputFile \<mapsto> encode P img)\<rparr>))
      else (Inl (WriteError outputFile), log (Write outputFile) w))"

text \<open>
  \<open>combineTwo(imageFiles, outputFile)\<close> (lines 43 to 58):
  \<^verbatim>\<open>
  openImage(imageFiles[0])
    .then((firstImage) => { images.push(firstImage); return openImage(imageFiles[1]); })
    .then((secondImage) => { images.push(secondImage);
      return createImage(images[0].width() + images[1].width(), images[0].height(), 'white'); })
    .then((destImage) => ImageHelpers.paste(images[0], destImage, 0, 0))
    .then((destImage) => ImageHelpers.paste(images[1], destImage, images[0].width(), 0))
    .then((destImage) => ImageHelpers.writeFile(destImage, outputFile));
  \<close>
\<close>

definition combineTwo ::
  "'b platform \<Rightarrow> string option list \<Rightarrow> string \<Rightarrow> (string, 'b) promise" where
  "combineTwo P imageFiles outputFile =
     thenP (openImage P (at imageFiles 0)) (\<lambda>firstImage.
     thenP (openImage P (at imageFiles 1)) (\<lambda>secondImage.
     thenP (createImage (width firstImage + width secondImage) (height firstImage) white)
       (\<lambda>destImage.
     thenP (paste P firstImage destImage 0 0) (\<lambda>destImage.
     thenP (paste P secondImage destImage (width firstImage) 0) (\<lambda>destImage.
     writeFile P destImage outputFile)))))"

text \<open>
  \<open>combineThree(imageFiles, outputFile)\<close> (lines 67 to 70):
  \<^verbatim>\<open>
  ImageHelpers.combineTwo(imageFiles.slice(0, 2), outputFile)
    .then(() => ImageHelpers.combineTwo([outputFile, imageFiles[2]], outputFile));
  \<close>
\<close>

definition combineThree ::
  "'b platform \<Rightarrow> string option list \<Rightarrow> string \<Rightarrow> (string, 'b) promise" where
  "combineThree P imageFiles outputFile =
     thenP (combineTwo P (take 2 imageFiles) outputFile)
       (\<lambda>_. combineTwo P [Some outputFile, at imageFiles 2] outputFile)"

text \<open>\<open>fs.existsSync\<close> and \<open>fs.mkdirSync\<close>; the latter throws when the directory cannot be made.\<close>

definition existsSync :: "'b world \<Rightarrow> string \<Rightarrow> bool" where
  "existsSync w p = (p \<in> dirs w \<or> files w p \<noteq> None)"

definition mkdirSync :: "'b platform \<Rightarrow> string \<Rightarrow> 'b world \<Rightarrow> error + 'b world" where
  "mkdirSync P p w =
     (if mkdirable P p then Inr (w\<lparr>dirs := insert p (dirs w)\<rparr>) else Inl (MkdirError p))"

text \<open>The template string \<open>`resources/${c}.jpeg`\<close>.\<close>

definition resource :: "string \<Rightarrow> string" where
  "resource c = ''resources/'' @ c @ ''.jpeg''"

text \<open>Lines 23 to 25 of \<open>createBoardImage\<close>: make \<open>./output\<close> unless it exists.\<close>

definition ensureOutputDir :: "'b platform \<Rightarrow> 'b world \<Rightarrow> error + 'b world" where
  "ensureOutputDir P w =
     (if \<not> existsSync w ''./output'' then mkdirSync P ''./output'' w else Inr w)"

text \<open>
  What a call of \<open>createBoardImage\<close> gives its caller: an exception, \<open>undefined\<close> (the
  \<open>switch\<close> has no case for the length), or a promise, here with its settled result.
  The \<open>switch\<close> of lines 27 to 34:
  \<^verbatim>\<open>
  case 3: return ImageHelpers.combineThree(imageFiles, './output/flop.jpeg');
  case 4: return ImageHelpers.combineTwo(['./output/flop.jpeg', imageFiles[3]],
                                         './output/turn.jpeg');
  case 5: return ImageHelpers.combineThree(['./output/flop.jpeg', imageFiles[3], imageFiles[4]],
                                           './output/river.jpeg');
  \<close>
\<close>

datatype outcome = Threw error | Undefined | Promise "error + string"

definition settle :: "(error + string) \<times> 'b world \<Rightarrow> outcome \<times> 'b world" where
  "settle r = (Promise (fst r), snd r)"

definition createBoardImage ::
  "'b platform \<Rightarrow> string list \<Rightarrow> 'b world \<Rightarrow> outcome \<times> 'b world" where
  "createBoardImage P cards w =
     (let imageFiles = map (\<lambda>c. Some (resource c)) cards in
      case ensureOutputDir P w of
        Inl e \<Rightarrow> (Threw e, w)
      | Inr w1 \<Rightarrow>
          if length cards = 3 then
            settle (combineThree P imageFiles ''./output/flop.jpeg'' w1)
          else if length cards = 4 then
            settle (combineTwo P [Some ''./output/flop.jpeg'', at imageFiles 3]
                      ''./output/turn.jpeg'' w1)
          else if length cards = 5 then
            settle (combineThree P [Some ''./output/flop.jpeg'', at imageFiles 3, at imageFiles 4]
                      ''./output/river.jpeg'' w1)
          else (Undefined, w1))"

subsection \<open>Reference pictures and auxiliary notions\<close>

text \<open>
  Two images side by side on a white canvas as wide as both and as tall as the first: the
  first image composited over the canvas from the origin, the second from column
  \<open>width a\<close>.
\<close>

definition beside :: "'b platform \<Rightarrow> image \<Rightarrow> image \<Rightarrow> image" where
  "beside P a b =
     \<lparr>width = width a + width b, height = height a,
      pixels = map (\<lambda>y. map (\<lambda>x.
                 if width a \<le> x \<and> y < height b then blend P (pixel b (x - width a) y) white
                 else if x < width a then blend P (pixel a x y) white else white)
               [0..<width a + width b]) [0..<height a]\<rparr>"

text \<open>The alpha channel of a colour, from 0 (transparent) to 100 (opaque).\<close>

definition alpha :: "colour \<Rightarrow> nat" where
  "alpha p = snd (snd (snd p))"

text \<open>An image all of whose pixels are opaque, as every image decoded from a JPEG file is.\<close>

definition opaque_image :: "image \<Rightarrow> bool" where
  "opaque_image img = (\<forall>row \<in> set (pixels img). \<forall>p \<in> set row. alpha p = 100)"

text \<open>An image whose pixel rows agree with its declared width and height.\<close>

definition wf_image :: "image \<Rightarrow> bool" where
  "wf_image img =
     (length (pixels img) = height img \<and> (\<forall>r \<in> set (pixels img). length r = width img))"

text \<open>
  The direct concatenations, two and three wide: every row is the images' rows one after
  the other.
\<close>

definition concat2 :: "image \<Rightarrow> image \<Rightarrow> image" where
  "concat2 a b =
     \<lparr>width = width a + width b, height = height a,
      pixels = map (\<lambda>y. pixels a ! y @ pixels b ! y) [0..<height a]\<rparr>"

definition concat3 :: "image \<Rightarrow> image \<Rightarrow> image \<Rightarrow> image" where
  "concat3 a b c =
     \<lparr>width = width a + width b + width c, height = height a,
      pixels = map (\<lambda>y. pixels a ! y @ pixels b ! y @ pixels c ! y) [0..<height a]\<rparr>"

text \<open>
  The rejection of \<open>combineTwo\<close>, or the bytes it writes, as a function of the files alone.
\<close>

definition twoOutcome ::
  "'b platform \<Rightarrow> (string \<Rightarrow> 'b option) \<Rightarrow> string option list \<Rightarrow> string \<Rightarrow> error + 'b" where
  "twoOutcome P fls fs out =
     (case lwip_open P fls (at fs 0) of
        Inl e \<Rightarrow> Inl e
      | Inr a \<Rightarrow>
          (case lwip_open P fls (at fs 1) of
             Inl e \<Rightarrow> Inl e
           | Inr b \<Rightarrow>
               if height a < height b then Inl PasteError
               else if writable P out then Inr (encode P (beside P a b))
               else Inl (WriteError out)))"

text \<open>
  The file a stage writes, and the files it reads in the order it reads them, as
  \<open>createBoardImage\<close> passes them on for 3, 4 and 5 cards.
\<close>

definition stagePath :: "nat \<Rightarrow> string" where
  "stagePath n =
     (if n = 3 then ''./output/flop.jpeg''
      else if n = 4 then ''./output/turn.jpeg'' else ''./output/river.jpeg'')"

definition stageInputs :: "string list \<Rightarrow> string list" where
  "stageInputs cards =
     (if length cards = 3 then map resource cards
      else ''./output/flop.jpeg'' # map resource (drop 3 cards))"

subsection \<open>A concrete platform and concrete worlds\<close>

text \<open>
  Alpha compositing of a pixel over another in whole numbers: each colour channel is the
  mean of the two weighted by the alphas, rounded down.
\<close>

definition over :: "colour \<Rightarrow> colour \<Rightarrow> colour" where
  "over p q =
     (case p of (r0, g0, b0, a0) \<Rightarrow>
      case q of (r1, g1, b1, a1) \<Rightarrow>
        let u = 100 * a0; v = a1 * (100 - a0) in
        if u + v = 0 then (0, 0, 0, 0)
        else ((u * r0 + v * r1) div (u + v), (u * g0 + v * g1) div (u + v),
              (u * b0 + v * b1) div (u + v), (u + v) div 100))"

text \<open>
  A platform that stores an image as it is, composites by \<open>over\<close> and refuses nothing; and
  one whose codec loses a little at every encoding: each colour channel comes out one lower.
\<close>

definition plainP :: "image platform" where
  "plainP = \<lparr>decode = Some, encode = (\<lambda>img. img), blend = over,
             writable = (\<lambda>p. True), mkdirable = (\<lambda>p. True)\<rparr>"

definition worn :: "image \<Rightarrow> image" where
  "worn img =
     img\<lparr>pixels := map (map (\<lambda>(r, g, b, a). (r - 1, g - 1, b - 1, a))) (pixels img)\<rparr>"

definition lossyP :: "image platform" where
  "lossyP = plainP\<lparr>encode := worn\<rparr>"

text \<open>A one-pixel image of the given shade of grey, and one of half transparent red.\<close>

definition dot :: "nat \<Rightarrow> image" where
  "dot g = lwip_create 1 1 (g, g, g, 100)"

definition glass :: image where
  "glass = lwip_create 1 1 (200, 0, 0, 49)"

text \<open>
  A world with five card assets and the directory \<open>./output\<close>, and the same world after a
  flop and a turn have been composed.
\<close>

definition deck :: "image world" where
  "deck =
     \<lparr>files = map_of
        [(resource ''2h'', dot 20), (resource ''9s'', dot 90), (resource ''Kd'', dot 130),
         (resource ''7c'', dot 70), (resource ''As'', dot 10)],
      dirs = {''./output''}, calls = []\<rparr>"

definition board :: "image world" where
  "board =
     deck\<lparr>files := (files deck)
        (''./output/flop.jpeg'' \<mapsto> lwip_create 3 1 white,
         ''./output/turn.jpeg'' \<mapsto> lwip_create 4 1 white)\<rparr>"

text \<open>
  The world \<open>deck\<close> with two more pictures: one two pixels tall, and the half transparent
  one in a format that has an alpha channel.
\<close>

definition shelf :: "image world" where
  "shelf =
     deck\<lparr>files := (files deck)
        (''tall.jpeg'' \<mapsto> lwip_create 1 2 white, ''glass.png'' \<mapsto> glass)\<rparr>"

section \<open>Auxiliary facts\<close>

subsection \<open>The closed form of \<open>combineTwo\<close>\<close>

lemma files_log [simp]: "files (log c w) = files w"
  and dirs_log [simp]: "dirs (log c w) = dirs w"
  and calls_log [simp]: "calls (log c w) = calls w @ [c]"
  by (simp_all add: log_def)

lemma paste_first:
  "lwip_paste P (lwip_create (width a + width b) (height a) white) 0 0 a =
     Inr \<lparr>width = width a + width b, height = height a,
          pixels = map (\<lambda>y. map (\<lambda>x. if x < width a then blend P (pixel a x y) white
                                     else white)
                     [0..<width a + width b]) [0..<height a]\<rparr>"
  by (simp add: lwip_paste_def lwip_create_def pixel_def)

lemma paste_second:
  "lwip_paste P \<lparr>width = width a + width b, height = height a,
          pixels = map (\<lambda>y. map (\<lambda>x. if x < width a then blend P (pixel a x y) white
                                     else white)
                     [0..<width a + width b]) [0..<height a]\<rparr> (width a) 0 b =
     (if height a < height b then Inl PasteError else Inr (beside P a b))"
  by (simp add: lwip_paste_def beside_def pixel_def)

lemma combineTwo_closed:
  "combineTwo P fs out w =
     (case lwip_open P (files w) (at fs 0) of
        Inl e \<Rightarrow> (Inl e, w\<lparr>calls := calls w @ [Open (at fs 0)]\<rparr>)
      | Inr a \<Rightarrow>
          (case lwip_open P (files w) (at fs 1) of
             Inl e \<Rightarrow> (Inl e, w\<lparr>calls := calls w @ [Open (at fs 0), Open (at fs 1)]\<rparr>)
           | Inr b \<Rightarrow>
               if height a < height b
               then (Inl PasteError,
                     w\<lparr>calls := calls w @
                        [Open (at fs 0), Open (at fs 1),
                         Create (width a + width b) (height a) white,
                         Paste 0 0, Paste (width a) 0]\<rparr>)
               else if writable P out
               then (Inr out,
                     w\<lparr>files := (files w)(out \<mapsto> encode P (beside P a b)),
                       calls := calls w @
                        [Open (at fs 0), Open (at fs 1),
                         Create (width a + width b) (height a) white,
                         Paste 0 0, Paste (width a) 0, Write out]\<rparr>)
               else (Inl (WriteError out),
                     w\<lparr>calls := calls w @
                        [Open (at fs 0), Open (at fs 1),
                         Create (width a + width b) (height a) white,
                         Paste 0 0, Paste (width a) 0, Write out]\<rparr>)))"
  by (simp add: combineTwo_def thenP_def openImage_def createImage_def paste_def writeFile_def
      paste_first paste_second log_def split: sum.splits)

lemma combineTwo_fst:
  "fst (combineTwo P fs out w) = map_sum id (\<lambda>_. out) (twoOutcome P (files w) fs out)"
  by (simp add: combineTwo_closed twoOutcome_def split: sum.splits)

lemma combineTwo_files:
  "files (snd (combineTwo P fs out w)) =
     (case twoOutcome P (files w) fs out of Inl e \<Rightarrow> files w | Inr c \<Rightarrow> (files w)(out \<mapsto> c))"
  by (simp add: combineTwo_closed twoOutcome_def split: sum.splits)

lemma combineTwo_dirs: "dirs (snd (combineTwo P fs out w)) = dirs w"
  by (simp add: combineTwo_closed split: sum.splits)

lemma combineThree_seq:
  "combineThree P fs out w =
     (case combineTwo P (take 2 fs) out w of
        (Inl e, w1) \<Rightarrow> (Inl e, w1)
      | (Inr v, w1) \<Rightarrow> combineTwo P [Some out, at fs 2] out w1)"
  by (simp add: combineThree_def thenP_def)

subsection \<open>Array indexing and files that are not touched\<close>

lemma lwip_open_upd:
  "f \<noteq> Some out \<Longrightarrow> lwip_open P (fls(out \<mapsto> c)) f = lwip_open P fls f"
  by (cases f) (auto simp: lwip_open_def)

lemma twoOutcome_upd:
  "at fs 0 \<noteq> Some out \<Longrightarrow> at fs 1 \<noteq> Some out \<Longrightarrow>
   twoOutcome P (fls(out \<mapsto> c)) fs o' = twoOutcome P fls fs o'"
  by (simp add: twoOutcome_def lwip_open_upd cong: sum.case_cong)

lemma at_take2: "i < 2 \<Longrightarrow> at (take 2 fs) i = at fs i"
  by (auto simp: at_def)

lemma twoOutcome_take2: "twoOutcome P fls (take 2 fs) out = twoOutcome P fls fs out"
  by (simp add: twoOutcome_def at_take2 cong: sum.case_cong)

lemma at_map_Some: "i < length xs \<Longrightarrow> at (map (\<lambda>c. Some (g c)) xs) i = Some (g (xs ! i))"
  by (simp add: at_def)

lemma at_Cons [simp]: "at (x # xs) 0 = x" "at (x # xs) (Suc n) = at xs n"
  by (simp_all add: at_def)

lemma at_Nil [simp]: "at [] n = None"
  by (simp add: at_def)

lemma resource_not_output [simp]:
  "resource c \<noteq> ''./output/flop.jpeg''" "resource c \<noteq> ''./output/turn.jpeg''"
  "resource c \<noteq> ''./output/river.jpeg''" "resource c \<noteq> ''./output''"
  by (simp_all add: resource_def)

subsection \<open>The result and the files after \<open>combineThree\<close>, from the files alone\<close>

lemma combineThree_fst:
  "fst (combineThree P fs out w) =
     (case twoOutcome P (files w) fs out of
        Inl e \<Rightarrow> Inl e
      | Inr c \<Rightarrow> map_sum id (\<lambda>_. out)
                  (twoOutcome P ((files w)(out \<mapsto> c)) [Some out, at fs 2] out))"
proof (cases "combineTwo P (take 2 fs) out w")
  case (Pair r w1)
  have r: "r = map_sum id (\<lambda>_. out) (twoOutcome P (files w) fs out)"
    using combineTwo_fst [of P "take 2 fs" out w] Pair by (simp add: twoOutcome_take2)
  have f: "files w1 =
      (case twoOutcome P (files w) fs out of Inl e \<Rightarrow> files w | Inr c \<Rightarrow> (files w)(out \<mapsto> c))"
    using combineTwo_files [of P "take 2 fs" out w] Pair by (simp add: twoOutcome_take2)
  show ?thesis
    by (cases "twoOutcome P (files w) fs out")
       (simp_all add: combineThree_seq Pair r f combineTwo_fst)
qed

lemma combineThree_files:
  "files (snd (combineThree P fs out w)) =
     (case twoOutcome P (files w) fs out of
        Inl e \<Rightarrow> files w
      | Inr c \<Rightarrow>
          (case twoOutcome P ((files w)(out \<mapsto> c)) [Some out, at fs 2] out of
             Inl e \<Rightarrow> (files w)(out \<mapsto> c)
           | Inr c' \<Rightarrow> (files w)(out \<mapsto> c')))"
proof (cases "combineTwo P (take 2 fs) out w")
  case (Pair r w1)
  have r: "r = map_sum id (\<lambda>_. out) (twoOutcome P (files w) fs out)"
    using combineTwo_fst [of P "take 2 fs" out w] Pair by (simp add: twoOutcome_take2)
  have f: "files w1 =
      (case twoOutcome P (files w) fs out of Inl e \<Rightarrow> files w | Inr c \<Rightarrow> (files w)(out \<mapsto> c))"
    using combineTwo_files [of P "take 2 fs" out w] Pair by (simp add: twoOutcome_take2)
  show ?thesis
    by (cases "twoOutcome P (files w) fs out")
       (simp_all add: combineThree_seq Pair r f combineTwo_files split: sum.splits)
qed

lemma combineThree_dirs: "dirs (snd (combineThree P fs out w)) = dirs w"
  by (cases "combineTwo P (take 2 fs) out w")
     (use combineTwo_dirs [of P "take 2 fs" out w] in
      \<open>auto simp: combineThree_seq combineTwo_dirs split: sum.splits\<close>)


subsection \<open>A second run\<close>

lemma combineTwo_again:
  assumes "at fs 0 \<noteq> Some out" "at fs 1 \<noteq> Some out"
    and "files w2 = files (snd (combineTwo P fs out w))"
  shows "fst (combineTwo P fs out w2) = fst (combineTwo P fs out w) \<and>
         files (snd (combineTwo P fs out w2)) = files (snd (combineTwo P fs out w))"
  using assms
  by (cases "twoOutcome P (files w) fs out")
     (simp_all add: combineTwo_fst combineTwo_files twoOutcome_upd)

lemma combineThree_again:
  assumes "at fs 0 \<noteq> Some out" "at fs 1 \<noteq> Some out" "at fs 2 \<noteq> Some out"
    and "files w2 = files (snd (combineThree P fs out w))"
  shows "fst (combineThree P fs out w2) = fst (combineThree P fs out w) \<and>
         files (snd (combineThree P fs out w2)) = files (snd (combineThree P fs out w))"
proof (cases "twoOutcome P (files w) fs out")
  case (Inl e)
  with assms show ?thesis
    by (simp add: combineThree_fst combineThree_files)
next
  case (Inr c)
  show ?thesis
  proof (cases "twoOutcome P ((files w)(out \<mapsto> c)) [Some out, at fs 2] out")
    case (Inl e)
    with Inr assms show ?thesis
      by (simp add: combineThree_fst combineThree_files twoOutcome_upd)
  next
    case (Inr c')
    with \<open>twoOutcome P (files w) fs out = Inr c\<close> assms show ?thesis
      by (simp add: combineThree_fst combineThree_files twoOutcome_upd)
  qed
qed

lemma combineTwo_exists:
  "existsSync w p \<Longrightarrow> existsSync (snd (combineTwo P fs out w)) p"
  by (auto simp: existsSync_def combineTwo_files combineTwo_dirs split: sum.splits)

lemma combineThree_exists:
  "existsSync w p \<Longrightarrow> existsSync (snd (combineThree P fs out w)) p"
  by (auto simp: existsSync_def combineThree_files combineThree_dirs split: sum.splits)

lemma ensure_cases:
  "(\<exists>e. ensureOutputDir P w = Inl e) \<or>
   (\<exists>w1. ensureOutputDir P w = Inr w1 \<and> files w1 = files w \<and> calls w1 = calls w \<and>
      existsSync w1 ''./output'')"
  by (auto simp: ensureOutputDir_def mkdirSync_def existsSync_def)

lemma ensure_exists: "existsSync w ''./output'' \<Longrightarrow> ensureOutputDir P w = Inr w"
  by (simp add: ensureOutputDir_def)


subsection \<open>The cases of \<open>createBoardImage\<close>\<close>

lemma createBoardImage_threw:
  "ensureOutputDir P w = Inl e \<Longrightarrow> createBoardImage P cards w = (Threw e, w)"
  by (simp add: createBoardImage_def)

lemma createBoardImage_3:
  "ensureOutputDir P w = Inr w1 \<Longrightarrow> length cards = 3 \<Longrightarrow>
   createBoardImage P cards w =
     settle (combineThree P (map (\<lambda>c. Some (resource c)) cards) ''./output/flop.jpeg'' w1)"
  by (simp add: createBoardImage_def)

lemma createBoardImage_4:
  "ensureOutputDir P w = Inr w1 \<Longrightarrow> length cards = 4 \<Longrightarrow>
   createBoardImage P cards w =
     settle (combineTwo P [Some ''./output/flop.jpeg'', Some (resource (cards ! 3))]
               ''./output/turn.jpeg'' w1)"
  by (simp add: createBoardImage_def Let_def at_map_Some)

lemma createBoardImage_5:
  "ensureOutputDir P w = Inr w1 \<Longrightarrow> length cards = 5 \<Longrightarrow>
   createBoardImage P cards w =
     settle (combineThree P
               [Some ''./output/flop.jpeg'', Some (resource (cards ! 3)),
                Some (resource (cards ! 4))]
               ''./output/river.jpeg'' w1)"
  by (simp add: createBoardImage_def Let_def at_map_Some)

lemma createBoardImage_other:
  "ensureOutputDir P w = Inr w1 \<Longrightarrow> length cards \<noteq> 3 \<Longrightarrow> length cards \<noteq> 4 \<Longrightarrow>
   length cards \<noteq> 5 \<Longrightarrow> createBoardImage P cards w = (Undefined, w1)"
  by (simp add: createBoardImage_def)

subsection \<open>The reference pictures\<close>

lemma beside_width [simp]: "width (beside P a b) = width a + width b"
  and beside_height [simp]: "height (beside P a b) = height a"
  by (simp_all add: beside_def)

lemma beside_left:
  "x < width a \<Longrightarrow> y < height a \<Longrightarrow>
   pixel (beside P a b) x y = blend P (pixel a x y) white"
  by (simp add: beside_def pixel_def)

lemma beside_right:
  "x < width b \<Longrightarrow> y < height b \<Longrightarrow> y < height a \<Longrightarrow>
   pixel (beside P a b) (width a + x) y = blend P (pixel b x y) white"
  by (simp add: beside_def pixel_def)

lemma beside_below:
  "x < width b \<Longrightarrow> height b \<le> y \<Longrightarrow> y < height a \<Longrightarrow>
   pixel (beside P a b) (width a + x) y = white"
  by (simp add: beside_def pixel_def)

lemma wf_row: "wf_image a \<Longrightarrow> y < height a \<Longrightarrow> length (pixels a ! y) = width a"
  by (simp add: wf_image_def)

lemma opaque_pixel:
  assumes "opaque_image a" "wf_image a" "x < width a" "y < height a"
  shows "alpha (pixel a x y) = 100"
proof -
  have "pixels a ! y \<in> set (pixels a)"
    using assms by (simp add: wf_image_def)
  moreover have "pixels a ! y ! x \<in> set (pixels a ! y)"
    using assms by (simp add: wf_row)
  ultimately show ?thesis
    using assms(1) by (auto simp: opaque_image_def pixel_def)
qed

text \<open>
  Opaque images of one height, composited by a library that lets an opaque pixel cover
  what is under it, give the plain concatenation.
\<close>

lemma beside_concat2:
  assumes cover: "\<forall>p q. alpha p = 100 \<longrightarrow> blend P p q = p"
    and "wf_image a" "wf_image b" "opaque_image a" "opaque_image b"
    and "height b = height a"
  shows "beside P a b = concat2 a b"
proof -
  let ?row = "\<lambda>y. map (\<lambda>x. if width a \<le> x \<and> y < height b
                              then blend P (pixel b (x - width a) y) white
                            else if x < width a then blend P (pixel a x y) white else white)
                    [0..<width a + width b]"
  have row: "?row y = pixels a ! y @ pixels b ! y" if y: "y < height a" for y
  proof (rule nth_equalityI)
    show "length (?row y) = length (pixels a ! y @ pixels b ! y)"
      using assms y by (simp add: wf_row)
  next
    fix i
    assume "i < length (?row y)"
    then have i: "i < width a + width b" by simp
    show "?row y ! i = (pixels a ! y @ pixels b ! y) ! i"
    proof (cases "i < width a")
      case True
      then have "alpha (pixel a i y) = 100"
        using assms y by (intro opaque_pixel) simp_all
      with cover have "blend P (pixel a i y) white = pixel a i y"
        by blast
      with True i y assms show ?thesis
        by (simp add: nth_append wf_row pixel_def)
    next
      case False
      then have "alpha (pixel b (i - width a) y) = 100"
        using assms y i by (intro opaque_pixel) simp_all
      with cover have "blend P (pixel b (i - width a) y) white = pixel b (i - width a) y"
        by blast
      with False i y assms show ?thesis
        by (simp add: nth_append wf_row pixel_def)
    qed
  qed
  have "pixels (beside P a b) = map ?row [0..<height a]"
    by (simp add: beside_def)
  also have "\<dots> = map (\<lambda>y. pixels a ! y @ pixels b ! y) [0..<height a]"
  proof (rule map_cong)
    show "[0..<height a] = [0..<height a]" by simp
  next
    fix y
    assume "y \<in> set [0..<height a]"
    then have "y < height a" by simp
    then show "?row y = pixels a ! y @ pixels b ! y" by (rule row)
  qed
  finally have "pixels (beside P a b) = pixels (concat2 a b)"
    by (simp add: concat2_def)
  moreover have "width (beside P a b) = width (concat2 a b)"
    "height (beside P a b) = height (concat2 a b)"
    by (simp_all add: concat2_def)
  ultimately show ?thesis by simp
qed

lemma wf_concat2:
  "wf_image a \<Longrightarrow> wf_image b \<Longrightarrow> height b = height a \<Longrightarrow> wf_image (concat2 a b)"
  by (auto simp: wf_image_def concat2_def)

lemma opaque_concat2:
  assumes "wf_image a" "wf_image b" "opaque_image a" "opaque_image b" "height b = height a"
  shows "opaque_image (concat2 a b)"
proof -
  have "alpha p = 100"
    if "y < height a" and "p \<in> set (pixels a ! y) \<or> p \<in> set (pixels b ! y)" for y p
  proof -
    have "pixels a ! y \<in> set (pixels a)" "pixels b ! y \<in> set (pixels b)"
      using assms that by (simp_all add: wf_image_def)
    with that assms show ?thesis
      by (auto simp: opaque_image_def)
  qed
  then show ?thesis
    by (auto simp: opaque_image_def concat2_def)
qed

lemma concat2_concat3:
  "concat2 (concat2 a b) c = concat3 a b c"
  by (simp add: concat2_def concat3_def)

lemma beside_beside_concat3:
  assumes cover: "\<forall>p q. alpha p = 100 \<longrightarrow> blend P p q = p"
    and "wf_image a" "wf_image b" "wf_image c"
    and "opaque_image a" "opaque_image b" "opaque_image c"
    and "height b = height a" "height c = height a"
  shows "beside P (beside P a b) c = concat3 a b c"
proof -
  have ab: "beside P a b = concat2 a b"
    using assms by (intro beside_concat2) simp_all
  have "beside P (concat2 a b) c = concat2 (concat2 a b) c"
    using assms by (intro beside_concat2 wf_concat2 opaque_concat2) (simp_all add: concat2_def)
  then show ?thesis
    by (simp add: ab concat2_concat3)
qed

subsection \<open>Runs that succeed\<close>

lemma twoOutcome_ok:
  assumes "lwip_open P fls (at fs 0) = Inr a" "lwip_open P fls (at fs 1) = Inr b"
    and "height b \<le> height a" "writable P out"
  shows "twoOutcome P fls fs out = Inr (encode P (beside P a b))"
  using assms by (simp add: twoOutcome_def)

lemma lwip_open_written:
  "decode P bytes = Some img \<Longrightarrow> lwip_open P (fls(out \<mapsto> bytes)) (Some out) = Inr img"
  by (simp add: lwip_open_def)

lemma combineThree_ok:
  assumes o0: "lwip_open P (files w) (at fs 0) = Inr a"
    and o1: "lwip_open P (files w) (at fs 1) = Inr b"
    and o2: "lwip_open P (files w) (at fs 2) = Inr c"
    and ne: "at fs 2 \<noteq> Some out"
    and hb: "height b \<le> height a" and hc: "height c \<le> height a"
    and wr: "writable P out"
    and dec: "decode P (encode P (beside P a b)) = Some j"
    and hj: "height j = height a"
  shows "fst (combineThree P fs out w) = Inr out \<and>
         files (snd (combineThree P fs out w)) = (files w)(out \<mapsto> encode P (beside P j c))"
proof -
  have first: "twoOutcome P (files w) fs out = Inr (encode P (beside P a b))"
    using o0 o1 hb wr by (rule twoOutcome_ok)
  let ?F = "(files w)(out \<mapsto> encode P (beside P a b))"
  have "lwip_open P ?F (at [Some out, at fs 2] 0) = Inr j"
    using dec by (simp add: lwip_open_written)
  moreover have "lwip_open P ?F (at [Some out, at fs 2] 1) = Inr c"
    using o2 ne by (simp add: lwip_open_upd)
  moreover have "height c \<le> height j"
    using hc hj by simp
  ultimately have second:
    "twoOutcome P ?F [Some out, at fs 2] out = Inr (encode P (beside P j c))"
    using wr by (rule twoOutcome_ok)
  show ?thesis
    by (simp add: combineThree_fst combineThree_files first second)
qed

subsection \<open>Missing files\<close>

lemma ensure_ok:
  "existsSync w ''./output'' \<or> mkdirable P ''./output'' \<Longrightarrow>
   \<exists>w1. ensureOutputDir P w = Inr w1 \<and> files w1 = files w"
  by (auto simp: ensureOutputDir_def mkdirSync_def)

lemma open_missing:
  "fls p = None \<Longrightarrow> lwip_open P fls (Some p) = Inl (ImageOpenError (Some p))"
  by (simp add: lwip_open_def)

lemma open_error_kind: "lwip_open P fls f = Inl e \<Longrightarrow> \<exists>p. e = ImageOpenError p"
  by (auto simp: lwip_open_def split: option.splits)

lemma twoOutcome_missing:
  assumes "fls p = None" and "at fs 0 = Some p \<or> at fs 1 = Some p"
  shows "\<exists>q. twoOutcome P fls fs out = Inl (ImageOpenError q)"
proof (cases "lwip_open P fls (at fs 0)")
  case (Inl e)
  then show ?thesis
    using open_error_kind [OF Inl] by (auto simp: twoOutcome_def)
next
  case (Inr a)
  with assms have "at fs 1 = Some p"
    by (auto simp: open_missing)
  with assms Inr show ?thesis
    by (simp add: twoOutcome_def open_missing)
qed

lemma combineTwo_missing:
  assumes "files w p = None" and "at fs 0 = Some p \<or> at fs 1 = Some p"
  shows "(\<exists>q. fst (combineTwo P fs out w) = Inl (ImageOpenError q)) \<and>
         files (snd (combineTwo P fs out w)) = files w"
  using twoOutcome_missing [where fls = "files w" and p = p and fs = fs and P = P and out = out]
    assms
  by (auto simp: combineTwo_fst combineTwo_files)

lemma combineThree_missing_first:
  assumes "files w p = None" and "at fs 0 = Some p \<or> at fs 1 = Some p"
  shows "(\<exists>q. fst (combineThree P fs out w) = Inl (ImageOpenError q)) \<and>
         files (snd (combineThree P fs out w)) = files w"
  using twoOutcome_missing [where fls = "files w" and p = p and fs = fs and P = P and out = out]
    assms
  by (auto simp: combineThree_fst combineThree_files)

lemma combineThree_missing_last:
  assumes "files w p = None" and "at fs 2 = Some p" and "p \<noteq> out"
  shows "\<exists>e. fst (combineThree P fs out w) = Inl e"
proof (cases "twoOutcome P (files w) fs out")
  case (Inl e)
  then show ?thesis by (simp add: combineThree_fst)
next
  case (Inr c)
  have "((files w)(out \<mapsto> c)) p = None"
    using assms by simp
  then obtain q where
    "twoOutcome P ((files w)(out \<mapsto> c)) [Some out, at fs 2] out = Inl (ImageOpenError q)"
    using twoOutcome_missing [of "(files w)(out \<mapsto> c)" p "[Some out, at fs 2]" P out] assms
    by auto
  with Inr show ?thesis by (simp add: combineThree_fst)
qed

subsection \<open>Sizes after a stage\<close>

lemma combineTwo_stage:
  assumes o0: "lwip_open P (files w) (at fs 0) = Inr a"
    and o1: "lwip_open P (files w) (at fs 1) = Inr b"
    and ht: "height a = h" "height b = h"
    and wr: "writable P out"
    and codec: "\<forall>img. \<exists>j. decode P (encode P img) = Some j \<and> width j = width img \<and>
                  height j = height img"
  shows "\<exists>bytes img.
     fst (combineTwo P fs out w) = Inr out \<and>
     files (snd (combineTwo P fs out w)) = (files w)(out \<mapsto> bytes) \<and>
     decode P bytes = Some img \<and> width img = width a + width b \<and> height img = h"
proof -
  have "twoOutcome P (files w) fs out = Inr (encode P (beside P a b))"
    using o0 o1 ht wr by (intro twoOutcome_ok) simp_all
  moreover from codec obtain k where "decode P (encode P (beside P a b)) = Some k"
    "width k = width (beside P a b)" "height k = height (beside P a b)"
    by blast
  ultimately show ?thesis
    using ht by (auto simp: combineTwo_fst combineTwo_files)
qed

lemma combineThree_stage:
  assumes o0: "lwip_open P (files w) (at fs 0) = Inr a"
    and o1: "lwip_open P (files w) (at fs 1) = Inr b"
    and o2: "lwip_open P (files w) (at fs 2) = Inr c"
    and ne: "at fs 2 \<noteq> Some out"
    and ht: "height a = h" "height b = h" "height c = h"
    and wr: "writable P out"
    and codec: "\<forall>img. \<exists>j. decode P (encode P img) = Some j \<and> width j = width img \<and>
                  height j = height img"
  shows "\<exists>bytes img.
     fst (combineThree P fs out w) = Inr out \<and>
     files (snd (combineThree P fs out w)) = (files w)(out \<mapsto> bytes) \<and>
     decode P bytes = Some img \<and> width img = width a + width b + width c \<and> height img = h"
proof -
  from codec obtain j where j: "decode P (encode P (beside P a b)) = Some j"
    "width j = width (beside P a b)" "height j = height (beside P a b)"
    by blast
  have "fst (combineThree P fs out w) = Inr out \<and>
        files (snd (combineThree P fs out w)) = (files w)(out \<mapsto> encode P (beside P j c))"
    using o0 o1 o2 ne ht wr j by (intro combineThree_ok [where a = a and b = b]) simp_all
  moreover from codec obtain k where "decode P (encode P (beside P j c)) = Some k"
    "width k = width (beside P j c)" "height k = height (beside P j c)"
    by blast
  ultimately show ?thesis
    using ht j by auto
qed

lemma length3: "length xs = 3 \<Longrightarrow> \<exists>a b c. xs = [a, b, c]"
  by (auto simp: numeral_3_eq_3 length_Suc_conv)

lemma length4: "length xs = 4 \<Longrightarrow> \<exists>a b c d. xs = [a, b, c, d]"
  by (auto simp: numeral_eq_Suc length_Suc_conv)

lemma length5: "length xs = 5 \<Longrightarrow> \<exists>a b c d e. xs = [a, b, c, d, e]"
  by (auto simp: numeral_eq_Suc length_Suc_conv)

subsection \<open>The concrete platform and worlds\<close>

lemma plainP_simps:
  "decode plainP bytes = Some bytes" "encode plainP img = img" "writable plainP p"
  "mkdirable plainP p" "blend plainP = over"
  by (simp_all add: plainP_def)

lemma lossyP_simps:
  "decode lossyP bytes = Some bytes" "encode lossyP img = worn img" "writable lossyP p"
  "mkdirable lossyP p" "blend lossyP = over"
  by (simp_all add: lossyP_def plainP_def)

lemma over_opaque: "alpha p = 100 \<Longrightarrow> over p q = p"
  by (cases p, cases q) (simp add: over_def alpha_def)

lemma plainP_cover: "\<forall>p q. alpha p = 100 \<longrightarrow> blend plainP p q = p"
  by (simp add: plainP_def over_opaque)

lemma wf_dot: "wf_image (dot g)"
  by (simp add: wf_image_def dot_def lwip_create_def)

lemma opaque_dot: "opaque_image (dot g)"
  by (simp add: opaque_image_def dot_def lwip_create_def alpha_def)

lemma dot_size: "width (dot g) = 1" "height (dot g) = 1"
  by (simp_all add: dot_def lwip_create_def)

lemma open_shelf:
  "lwip_open P (files shelf) (Some (resource c)) = lwip_open P (files deck) (Some (resource c))"
  "lwip_open plainP (files shelf) (Some ''tall.jpeg'') = Inr (lwip_create 1 2 white)"
  "lwip_open plainP (files shelf) (Some ''glass.png'') = Inr glass"
  by (simp_all add: shelf_def lwip_open_def plainP_def resource_def)

lemma ensure_board: "ensureOutputDir P board = Inr board"
  by (simp add: ensure_exists existsSync_def board_def deck_def)

lemma ensure_deck: "ensureOutputDir P deck = Inr deck"
  by (simp add: ensure_exists existsSync_def deck_def)

lemma deck_exists: "existsSync deck ''./output''" "existsSync board ''./output''"
  by (simp_all add: existsSync_def deck_def board_def)

lemma deck_missing: "files deck (resource ''Zz'') = None"
  by (simp add: deck_def resource_def)

lemma open_deck:
  "lwip_open plainP (files deck) (Some (resource ''2h'')) = Inr (dot 20)"
  "lwip_open plainP (files deck) (Some (resource ''9s'')) = Inr (dot 90)"
  "lwip_open plainP (files deck) (Some (resource ''Kd'')) = Inr (dot 130)"
  "lwip_open plainP (files deck) (Some (resource ''7c'')) = Inr (dot 70)"
  "lwip_open plainP (files deck) (Some (resource ''As'')) = Inr (dot 10)"
  "lwip_open plainP (files deck) (Some (resource ''Zz'')) =
     Inl (ImageOpenError (Some (resource ''Zz'')))"
  by (simp_all add: lwip_open_def deck_def plainP_def resource_def)

lemma open_board_flop:
  "lwip_open plainP (files board) (Some ''./output/flop.jpeg'') = Inr (lwip_create 3 1 white)"
  by (simp add: lwip_open_def board_def plainP_def)

lemma open_board_resource:
  "lwip_open plainP (files board) (Some (resource c)) =
   lwip_open plainP (files deck) (Some (resource c))"
  by (simp add: board_def lwip_open_upd)

section \<open>The claims\<close>

subsection \<open>Dispatch on the number of cards\<close>

text \<open>
  C1, as the code has it. For five cards \<open>createBoardImage\<close> calls \<open>combineThree\<close> on the
  flop's output file \<open>./output/flop.jpeg\<close> (not the turn's), the fourth and the fifth card,
  with the river path as output.
\<close>

theorem river_reads_flop:
  "length cards = 5 \<Longrightarrow>
   createBoardImage P cards w =
     (case ensureOutputDir P w of
        Inl e \<Rightarrow> (Threw e, w)
      | Inr w1 \<Rightarrow>
          settle (combineThree P
                    [Some ''./output/flop.jpeg'', Some (resource (cards ! 3)),
                     Some (resource (cards ! 4))]
                    ''./output/river.jpeg'' w1))"
  by (cases "ensureOutputDir P w") (simp_all add: createBoardImage_threw createBoardImage_5)

theorem river_reads_flop_witness:
  "createBoardImage plainP [''2h'', ''9s'', ''Kd'', ''7c'', ''As''] board =
     settle (combineThree plainP
               [Some ''./output/flop.jpeg'', Some (resource ''7c''), Some (resource ''As'')]
               ''./output/river.jpeg'' board)"
  using river_reads_flop [of "[''2h'', ''9s'', ''Kd'', ''7c'', ''As'']" plainP board]
  by (simp add: ensure_board)

text \<open>
  C1 as stated fails: with a turn file on disk that differs from the flop file, the river
  composed from the flop file is five cards wide, the one composed from the turn file six.
\<close>

lemma river_from_flop_width:
  "map_option width
     (files (snd (createBoardImage plainP [''2h'', ''9s'', ''Kd'', ''7c'', ''As''] board))
        ''./output/river.jpeg'') = Some 5"
  by (subst createBoardImage_5 [OF ensure_board])
     (simp_all add: settle_def combineThree_files
      twoOutcome_def lwip_open_def at_def beside_def board_def deck_def plainP_def
      resource_def dot_def lwip_create_def)

lemma river_from_turn_width:
  "map_option width
     (files (snd (settle (combineThree plainP
               [Some ''./output/turn.jpeg'', Some (resource ''7c''), Some (resource ''As'')]
               ''./output/river.jpeg'' board)))
        ''./output/river.jpeg'') = Some 6"
  by (simp add: settle_def combineThree_files
      twoOutcome_def lwip_open_def at_def beside_def board_def deck_def plainP_def
      resource_def dot_def lwip_create_def)

theorem river_reads_turn_counterexample:
  "createBoardImage plainP [''2h'', ''9s'', ''Kd'', ''7c'', ''As''] board \<noteq>
     settle (combineThree plainP
               [Some ''./output/turn.jpeg'', Some (resource ''7c''), Some (resource ''As'')]
               ''./output/river.jpeg'' board)"
proof
  assume "createBoardImage plainP [''2h'', ''9s'', ''Kd'', ''7c'', ''As''] board =
     settle (combineThree plainP
               [Some ''./output/turn.jpeg'', Some (resource ''7c''), Some (resource ''As'')]
               ''./output/river.jpeg'' board)"
  then have "Some (5::nat) = Some 6"
    using river_from_flop_width river_from_turn_width by simp
  then show False by simp
qed

text \<open>
  C2, as the code has it. For a number of cards other than 3, 4 and 5 no case of the
  \<open>switch\<close> matches: once \<open>./output\<close> is ensured, \<open>createBoardImage\<close> returns \<open>undefined\<close>,
  no promise and no error; it opens no image and writes no file.
\<close>

theorem other_lengths_undefined:
  assumes "length cards \<notin> {3, 4, 5}"
  shows "createBoardImage P cards w =
           (case ensureOutputDir P w of
              Inl e \<Rightarrow> (Threw e, w)
            | Inr w1 \<Rightarrow> (Undefined, w1)) \<and>
         files (snd (createBoardImage P cards w)) = files w \<and>
         calls (snd (createBoardImage P cards w)) = calls w"
proof (cases "ensureOutputDir P w")
  case (Inl e)
  then show ?thesis by (simp add: createBoardImage_threw)
next
  case (Inr w1)
  moreover have "files w1 = files w" "calls w1 = calls w"
    using ensure_cases [of P w] Inr by auto
  ultimately show ?thesis using assms by (simp add: createBoardImage_other)
qed

theorem other_lengths_undefined_witness:
  "createBoardImage plainP [''2h'', ''9s'', ''Kd'', ''7c'', ''As'', ''Qs''] deck
     = (Undefined, deck) \<and>
   createBoardImage plainP [''2h'', ''9s''] deck = (Undefined, deck)"
  using other_lengths_undefined [of "[''2h'', ''9s'', ''Kd'', ''7c'', ''As'', ''Qs'']" plainP deck]
    other_lengths_undefined [of "[''2h'', ''9s'']" plainP deck]
  by (simp add: ensure_deck)

text \<open>C2 as stated fails: for no cards the result is \<open>undefined\<close>, not an error.\<close>

theorem invalid_count_counterexample:
  "createBoardImage plainP [] deck = (Undefined, deck)"
  by (simp add: createBoardImage_def ensure_deck)

subsection \<open>What \<open>combineTwo\<close> composes\<close>

text \<open>
  C3, as the code has it. For every two images that the input files open as, \<open>combineTwo\<close>
  asks for a white canvas as wide as both and as tall as the first, pastes the first image at
  \<open>(0, 0)\<close> and asks the library to paste the second at \<open>(width of the first, 0)\<close>. When the
  second image is no taller than the first, it then writes the canvas to the output path:
  the calls are these, in this order, and the file written holds a canvas of that size
  showing the first image, composited over white, on the left and the second to its right;
  if the write is refused the promise rejects with that error and no file changes. When the
  second image is taller than the first, the library refuses the second paste: the promise
  rejects with the paste error and nothing is written.
\<close>

theorem combineTwo_canvas:
  assumes "lwip_open P (files w) (at fs 0) = Inr a"
    and "lwip_open P (files w) (at fs 1) = Inr b"
  shows "\<exists>canvas.
     width canvas = width a + width b \<and> height canvas = height a \<and>
     (\<forall>x y. x < width a \<and> y < height a \<longrightarrow>
        pixel canvas x y = blend P (pixel a x y) white) \<and>
     (\<forall>x y. x < width b \<and> y < height b \<and> y < height a \<longrightarrow>
        pixel canvas (width a + x) y = blend P (pixel b x y) white) \<and>
     (\<forall>x y. x < width b \<and> height b \<le> y \<and> y < height a \<longrightarrow>
        pixel canvas (width a + x) y = white) \<and>
     combineTwo P fs out w =
       (if height a < height b
        then (Inl PasteError,
              w\<lparr>calls := calls w @
                 [Open (at fs 0), Open (at fs 1),
                  Create (width a + width b) (height a) white,
                  Paste 0 0, Paste (width a) 0]\<rparr>)
        else if writable P out
        then (Inr out,
              w\<lparr>files := (files w)(out \<mapsto> encode P canvas),
                calls := calls w @
                 [Open (at fs 0), Open (at fs 1),
                  Create (width a + width b) (height a) white,
                  Paste 0 0, Paste (width a) 0, Write out]\<rparr>)
        else (Inl (WriteError out),
              w\<lparr>calls := calls w @
                 [Open (at fs 0), Open (at fs 1),
                  Create (width a + width b) (height a) white,
                  Paste 0 0, Paste (width a) 0, Write out]\<rparr>))"
proof (intro exI [of _ "beside P a b"] conjI allI impI)
  show "combineTwo P fs out w =
       (if height a < height b
        then (Inl PasteError,
              w\<lparr>calls := calls w @
                 [Open (at fs 0), Open (at fs 1),
                  Create (width a + width b) (height a) white,
                  Paste 0 0, Paste (width a) 0]\<rparr>)
        else if writable P out
        then (Inr out,
              w\<lparr>files := (files w)(out \<mapsto> encode P (beside P a b)),
                calls := calls w @
                 [Open (at fs 0), Open (at fs 1),
                  Create (width a + width b) (height a) white,
                  Paste 0 0, Paste (width a) 0, Write out]\<rparr>)
        else (Inl (WriteError out),
              w\<lparr>calls := calls w @
                 [Open (at fs 0), Open (at fs 1),
                  Create (width a + width b) (height a) white,
                  Paste 0 0, Paste (width a) 0, Write out]\<rparr>))"
    using assms by (simp add: combineTwo_closed)
qed (simp_all add: beside_left beside_right beside_below)

theorem combineTwo_canvas_witness:
  "\<exists>canvas.
     width canvas = 2 \<and> height canvas = 1 \<and>
     pixel canvas 0 0 = (20, 20, 20, 100) \<and> pixel canvas 1 0 = (90, 90, 90, 100) \<and>
     combineTwo plainP [Some (resource ''2h''), Some (resource ''9s'')] ''./output/pair.jpeg'' deck =
       (Inr ''./output/pair.jpeg'',
        deck\<lparr>files := (files deck)(''./output/pair.jpeg'' \<mapsto> canvas),
             calls := [Open (Some (resource ''2h'')), Open (Some (resource ''9s'')),
                       Create 2 1 white, Paste 0 0, Paste 1 0, Write ''./output/pair.jpeg'']\<rparr>)"
proof -
  let ?fs = "[Some (resource ''2h''), Some (resource ''9s'')]"
  have o1: "lwip_open plainP (files deck) (at ?fs 0) = Inr (dot 20)"
    and o2: "lwip_open plainP (files deck) (at ?fs 1) = Inr (dot 90)"
    by (simp_all add: open_deck)
  from combineTwo_canvas [OF o1 o2, of "''./output/pair.jpeg''"]
  obtain canvas where
    wd: "width canvas = width (dot 20) + width (dot 90)" and
    ht: "height canvas = height (dot 20)" and
    lft: "\<forall>x y. x < width (dot 20) \<and> y < height (dot 20) \<longrightarrow>
           pixel canvas x y = blend plainP (pixel (dot 20) x y) white" and
    rgt: "\<forall>x y. x < width (dot 90) \<and> y < height (dot 90) \<and> y < height (dot 20) \<longrightarrow>
           pixel canvas (width (dot 20) + x) y = blend plainP (pixel (dot 90) x y) white" and
    run: "combineTwo plainP ?fs ''./output/pair.jpeg'' deck =
       (if height (dot 20) < height (dot 90)
        then (Inl PasteError,
              deck\<lparr>calls := calls deck @
                 [Open (at ?fs 0), Open (at ?fs 1),
                  Create (width (dot 20) + width (dot 90)) (height (dot 20)) white,
                  Paste 0 0, Paste (width (dot 20)) 0]\<rparr>)
        else if writable plainP ''./output/pair.jpeg''
        then (Inr ''./output/pair.jpeg'',
              deck\<lparr>files := (files deck)(''./output/pair.jpeg'' \<mapsto> encode plainP canvas),
                calls := calls deck @
                 [Open (at ?fs 0), Open (at ?fs 1),
                  Create (width (dot 20) + width (dot 90)) (height (dot 20)) white,
                  Paste 0 0, Paste (width (dot 20)) 0, Write ''./output/pair.jpeg'']\<rparr>)
        else (Inl (WriteError ''./output/pair.jpeg''),
              deck\<lparr>calls := calls deck @
                 [Open (at ?fs 0), Open (at ?fs 1),
                  Create (width (dot 20) + width (dot 90)) (height (dot 20)) white,
                  Paste 0 0, Paste (width (dot 20)) 0, Write ''./output/pair.jpeg'']\<rparr>))"
    by blast
  have px: "pixel (dot g) 0 0 = (g, g, g, 100)" for g
    by (simp add: dot_def lwip_create_def pixel_def)
  have "pixel canvas 0 0 = (20, 20, 20, 100)"
    using lft [rule_format, of 0 0]
    by (simp add: dot_size px plainP_simps over_opaque alpha_def)
  moreover have "pixel canvas 1 0 = (90, 90, 90, 100)"
    using rgt [rule_format, of 0 0]
    by (simp add: dot_size px plainP_simps over_opaque alpha_def)
  moreover have "calls deck = []"
    by (simp add: deck_def)
  ultimately show ?thesis
    using wd ht run by (intro exI [of _ canvas]) (simp add: dot_size plainP_simps)
qed

text \<open>
  C3 as stated fails: a second image taller than the first is never pasted, and a refused
  write leaves no file; in both runs the two files open and no canvas is written.
\<close>

theorem combineTwo_canvas_counterexample:
  "lwip_open plainP (files shelf) (Some (resource ''2h'')) = Inr (dot 20) \<and>
   lwip_open plainP (files shelf) (Some ''tall.jpeg'') = Inr (lwip_create 1 2 white) \<and>
   fst (combineTwo plainP [Some (resource ''2h''), Some ''tall.jpeg''] ''./output/pair.jpeg'' shelf)
     = Inl PasteError \<and>
   files (snd (combineTwo plainP [Some (resource ''2h''), Some ''tall.jpeg'']
                 ''./output/pair.jpeg'' shelf)) ''./output/pair.jpeg'' = None \<and>
   fst (combineTwo (plainP\<lparr>writable := \<lambda>p. False\<rparr>)
          [Some (resource ''2h''), Some (resource ''9s'')] ''./output/pair.jpeg'' deck)
     = Inl (WriteError ''./output/pair.jpeg'') \<and>
   files (snd (combineTwo (plainP\<lparr>writable := \<lambda>p. False\<rparr>)
                 [Some (resource ''2h''), Some (resource ''9s'')] ''./output/pair.jpeg'' deck))
      ''./output/pair.jpeg'' = None"
proof -
  have none: "files shelf ''./output/pair.jpeg'' = None" "files deck ''./output/pair.jpeg'' = None"
    by (simp_all add: shelf_def deck_def resource_def)
  have p: "lwip_open (plainP\<lparr>writable := \<lambda>p. False\<rparr>) fls f = lwip_open plainP fls f" for fls f
    by (simp add: lwip_open_def cong: option.case_cong)
  have tall: "twoOutcome plainP (files shelf) [Some (resource ''2h''), Some ''tall.jpeg'']
      ''./output/pair.jpeg'' = Inl PasteError"
    by (simp add: twoOutcome_def open_shelf open_deck dot_size lwip_create_def)
  have ro: "twoOutcome (plainP\<lparr>writable := \<lambda>p. False\<rparr>) (files deck)
      [Some (resource ''2h''), Some (resource ''9s'')] ''./output/pair.jpeg'' =
      Inl (WriteError ''./output/pair.jpeg'')"
    by (simp add: twoOutcome_def p open_deck dot_size)
  show ?thesis
    by (simp add: combineTwo_fst combineTwo_files tall ro none open_shelf open_deck)
qed

subsection \<open>\<open>combineThree\<close> as two steps\<close>

text \<open>
  C4, as the code has it. For every triple of input files and output path, \<open>combineThree\<close> is
  \<open>combineTwo\<close> on the first two files, written to the output path, followed by \<open>combineTwo\<close>
  on that output path and the third file, overwriting the path. When moreover the third
  input path is not the output path, the three files open as well-formed opaque images of one
  height, an opaque pixel pasted covers what is under it, the write is accepted and the
  codec gives the intermediate picture of the first two back as it was, the promise resolves
  and the file written holds the direct three-wide concatenation of the three images.
\<close>

theorem combineThree_concatenates:
  "combineThree P fs out w =
     (case combineTwo P (take 2 fs) out w of
        (Inl e, w1) \<Rightarrow> (Inl e, w1)
      | (Inr v, w1) \<Rightarrow> combineTwo P [Some out, at fs 2] out w1) \<and>
   (lwip_open P (files w) (at fs 0) = Inr a \<and>
    lwip_open P (files w) (at fs 1) = Inr b \<and>
    lwip_open P (files w) (at fs 2) = Inr c \<and>
    at fs 2 \<noteq> Some out \<and>
    wf_image a \<and> wf_image b \<and> wf_image c \<and>
    opaque_image a \<and> opaque_image b \<and> opaque_image c \<and>
    (\<forall>p q. alpha p = 100 \<longrightarrow> blend P p q = p) \<and>
    height b = height a \<and> height c = height a \<and>
    writable P out \<and>
    decode P (encode P (concat2 a b)) = Some (concat2 a b) \<longrightarrow>
      fst (combineThree P fs out w) = Inr out \<and>
      files (snd (combineThree P fs out w)) = (files w)(out \<mapsto> encode P (concat3 a b c)))"
proof (intro conjI impI)
  show "combineThree P fs out w =
     (case combineTwo P (take 2 fs) out w of
        (Inl e, w1) \<Rightarrow> (Inl e, w1)
      | (Inr v, w1) \<Rightarrow> combineTwo P [Some out, at fs 2] out w1)"
    by (rule combineThree_seq)
next
  assume h: "lwip_open P (files w) (at fs 0) = Inr a \<and>
    lwip_open P (files w) (at fs 1) = Inr b \<and>
    lwip_open P (files w) (at fs 2) = Inr c \<and>
    at fs 2 \<noteq> Some out \<and>
    wf_image a \<and> wf_image b \<and> wf_image c \<and>
    opaque_image a \<and> opaque_image b \<and> opaque_image c \<and>
    (\<forall>p q. alpha p = 100 \<longrightarrow> blend P p q = p) \<and>
    height b = height a \<and> height c = height a \<and>
    writable P out \<and>
    decode P (encode P (concat2 a b)) = Some (concat2 a b)"
  then have cover: "\<forall>p q. alpha p = 100 \<longrightarrow> blend P p q = p"
    by blast
  have ab: "beside P a b = concat2 a b"
    using h cover by (intro beside_concat2) simp_all
  have abc: "beside P (beside P a b) c = concat3 a b c"
    using h cover by (intro beside_beside_concat3) simp_all
  have "fst (combineThree P fs out w) = Inr out \<and>
        files (snd (combineThree P fs out w)) =
          (files w)(out \<mapsto> encode P (beside P (beside P a b) c))"
    using h by (intro combineThree_ok [where a = a and b = b]) (simp_all add: ab concat2_def)
  then show "fst (combineThree P fs out w) = Inr out"
    and "files (snd (combineThree P fs out w)) = (files w)(out \<mapsto> encode P (concat3 a b c))"
    by (simp_all add: abc)
qed

theorem combineThree_concatenates_witness:
  "fst (combineThree plainP
          [Some (resource ''2h''), Some (resource ''9s''), Some (resource ''Kd'')]
          ''./output/flop.jpeg'' deck) = Inr ''./output/flop.jpeg'' \<and>
   files (snd (combineThree plainP
          [Some (resource ''2h''), Some (resource ''9s''), Some (resource ''Kd'')]
          ''./output/flop.jpeg'' deck)) =
     (files deck)(''./output/flop.jpeg'' \<mapsto> concat3 (dot 20) (dot 90) (dot 130))"
proof -
  let ?fs = "[Some (resource ''2h''), Some (resource ''9s''), Some (resource ''Kd'')]"
  have hyp: "lwip_open plainP (files deck) (at ?fs 0) = Inr (dot 20) \<and>
    lwip_open plainP (files deck) (at ?fs 1) = Inr (dot 90) \<and>
    lwip_open plainP (files deck) (at ?fs 2) = Inr (dot 130) \<and>
    at ?fs 2 \<noteq> Some ''./output/flop.jpeg'' \<and>
    wf_image (dot 20) \<and> wf_image (dot 90) \<and> wf_image (dot 130) \<and>
    opaque_image (dot 20) \<and> opaque_image (dot 90) \<and> opaque_image (dot 130) \<and>
    (\<forall>p q. alpha p = 100 \<longrightarrow> blend plainP p q = p) \<and>
    height (dot 90) = height (dot 20) \<and> height (dot 130) = height (dot 20) \<and>
    writable plainP ''./output/flop.jpeg'' \<and>
    decode plainP (encode plainP (concat2 (dot 20) (dot 90))) = Some (concat2 (dot 20) (dot 90))"
    using plainP_cover
    by (simp add: open_deck wf_dot opaque_dot dot_size numeral_2_eq_2 plainP_simps)
  have "fst (combineThree plainP ?fs ''./output/flop.jpeg'' deck) = Inr ''./output/flop.jpeg'' \<and>
        files (snd (combineThree plainP ?fs ''./output/flop.jpeg'' deck)) =
          (files deck)(''./output/flop.jpeg'' \<mapsto>
             encode plainP (concat3 (dot 20) (dot 90) (dot 130)))"
    using combineThree_concatenates
      [where P = plainP and fs = ?fs and out = "''./output/flop.jpeg''" and w = deck
         and a = "dot 20" and b = "dot 90" and c = "dot 130", THEN conjunct2, rule_format, OF hyp]
    by blast
  then show ?thesis
    by (simp add: plainP_simps)
qed

text \<open>
  C4 as stated fails in four ways. With a codec that loses a little at every encoding, as
  JPEG does, the first two cards of an ordinary flop are encoded twice and the third once,
  so the file differs from the concatenation of the three pictures, encoded or not. A half
  transparent picture is composited over the white canvas and does not keep its pixels. A
  third picture taller than the first is refused. And when the third input is the output
  path itself, the second step reads the intermediate picture twice.
\<close>

lemma lossy_flop:
  "files (snd (combineThree lossyP
          [Some (resource ''2h''), Some (resource ''9s''), Some (resource ''Kd'')]
          ''./output/flop.jpeg'' deck)) ''./output/flop.jpeg'' =
     Some \<lparr>width = 3, height = 1,
           pixels = [[(18, 18, 18, 100), (88, 88, 88, 100), (129, 129, 129, 100)]]\<rparr>"
proof -
  let ?fs = "[Some (resource ''2h''), Some (resource ''9s''), Some (resource ''Kd'')]"
  let ?ab = "\<lparr>width = 2, height = Suc 0, pixels = [[(19, 19, 19, 100), (89, 89, 89, 100)]]\<rparr>"
  let ?abc = "\<lparr>width = 3, height = Suc 0,
                pixels = [[(18, 18, 18, 100), (88, 88, 88, 100), (129, 129, 129, 100)]]\<rparr>"
  have o: "lwip_open lossyP fls f = lwip_open plainP fls f" for fls f
    by (simp add: lwip_open_def lossyP_simps plainP_simps cong: option.case_cong)
  have ab: "worn (beside lossyP (dot 20) (dot 90)) = ?ab"
    by (simp add: beside_def worn_def dot_def lwip_create_def pixel_def lossyP_simps
        over_opaque alpha_def)
  have abc: "worn (beside lossyP ?ab (dot 130)) = ?abc"
    by (simp add: beside_def worn_def dot_def lwip_create_def pixel_def lossyP_simps
        over_opaque alpha_def upt_rec)
  have first: "twoOutcome lossyP (files deck) ?fs ''./output/flop.jpeg'' = Inr ?ab"
    using ab by (simp add: twoOutcome_def o open_deck dot_size lossyP_simps)
  have second: "twoOutcome lossyP ((files deck)(''./output/flop.jpeg'' \<mapsto> ?ab))
      [Some ''./output/flop.jpeg'', at ?fs 2] ''./output/flop.jpeg'' = Inr ?abc"
    using abc
    by (simp add: twoOutcome_def at_def lwip_open_written lwip_open_upd o open_deck dot_size
        lossyP_simps plainP_simps)
  show ?thesis
    by (simp add: combineThree_files first second)
qed

lemma over_glass: "over (200, 0, 0, 49) white = (228, 130, 130, 100)"
  by (simp add: over_def white_def)

lemma glass_flop:
  "files (snd (combineThree plainP
          [Some ''glass.png'', Some (resource ''9s''), Some (resource ''Kd'')]
          ''./output/flop.jpeg'' shelf)) ''./output/flop.jpeg'' =
     Some \<lparr>width = 3, height = 1,
           pixels = [[(228, 130, 130, 100), (90, 90, 90, 100), (130, 130, 130, 100)]]\<rparr>"
proof -
  let ?fs = "[Some ''glass.png'', Some (resource ''9s''), Some (resource ''Kd'')]"
  let ?ab = "\<lparr>width = 2, height = Suc 0, pixels = [[(228, 130, 130, 100), (90, 90, 90, 100)]]\<rparr>"
  let ?abc = "\<lparr>width = 3, height = Suc 0,
                pixels = [[(228, 130, 130, 100), (90, 90, 90, 100), (130, 130, 130, 100)]]\<rparr>"
  have ab: "beside plainP glass (dot 90) = ?ab"
    by (simp add: beside_def glass_def dot_def lwip_create_def pixel_def plainP_simps
        over_glass over_opaque alpha_def)
  have abc: "beside plainP ?ab (dot 130) = ?abc"
    by (simp add: beside_def dot_def lwip_create_def pixel_def plainP_simps
        over_opaque alpha_def upt_rec)
  have first: "twoOutcome plainP (files shelf) ?fs ''./output/flop.jpeg'' = Inr ?ab"
    using ab
    by (simp add: twoOutcome_def open_shelf open_deck dot_size glass_def lwip_create_def
        plainP_simps)
  have second: "twoOutcome plainP ((files shelf)(''./output/flop.jpeg'' \<mapsto> ?ab))
      [Some ''./output/flop.jpeg'', at ?fs 2] ''./output/flop.jpeg'' = Inr ?abc"
    using abc
    by (simp add: twoOutcome_def at_def lwip_open_written lwip_open_upd open_shelf open_deck
        dot_size plainP_simps)
  show ?thesis
    by (simp add: combineThree_files first second)
qed

lemma tall_flop:
  "fst (combineThree plainP
          [Some (resource ''2h''), Some (resource ''9s''), Some ''tall.jpeg'']
          ''./output/flop.jpeg'' shelf) = Inl PasteError"
proof -
  let ?fs = "[Some (resource ''2h''), Some (resource ''9s''), Some ''tall.jpeg'']"
  let ?ab = "beside plainP (dot 20) (dot 90)"
  have first: "twoOutcome plainP (files shelf) ?fs ''./output/flop.jpeg'' = Inr ?ab"
    by (simp add: twoOutcome_def open_shelf open_deck dot_size plainP_simps)
  have second: "twoOutcome plainP ((files shelf)(''./output/flop.jpeg'' \<mapsto> ?ab))
      [Some ''./output/flop.jpeg'', at ?fs 2] ''./output/flop.jpeg'' = Inl PasteError"
    by (simp add: twoOutcome_def at_def lwip_open_written lwip_open_upd open_shelf
        dot_size plainP_simps lwip_create_def)
  show ?thesis
    by (simp add: combineThree_fst first second)
qed

lemma aliased_third_width:
  "map_option width
     (files (snd (combineThree plainP
          [Some (resource ''2h''), Some (resource ''9s''), Some ''./output/flop.jpeg'']
          ''./output/flop.jpeg'' board)) ''./output/flop.jpeg'') = Some 4"
  by (simp add: combineThree_files twoOutcome_def open_board_resource open_deck
      lwip_open_written dot_size plainP_simps at_def)

theorem combineThree_concatenates_counterexample:
  "files (snd (combineThree lossyP
          [Some (resource ''2h''), Some (resource ''9s''), Some (resource ''Kd'')]
          ''./output/flop.jpeg'' deck)) ''./output/flop.jpeg'' =
     Some \<lparr>width = 3, height = 1,
           pixels = [[(18, 18, 18, 100), (88, 88, 88, 100), (129, 129, 129, 100)]]\<rparr> \<and>
   encode lossyP (concat3 (dot 20) (dot 90) (dot 130)) =
     \<lparr>width = 3, height = 1,
      pixels = [[(19, 19, 19, 100), (89, 89, 89, 100), (129, 129, 129, 100)]]\<rparr> \<and>
   concat3 (dot 20) (dot 90) (dot 130) =
     \<lparr>width = 3, height = 1,
      pixels = [[(20, 20, 20, 100), (90, 90, 90, 100), (130, 130, 130, 100)]]\<rparr> \<and>
   files (snd (combineThree plainP
          [Some ''glass.png'', Some (resource ''9s''), Some (resource ''Kd'')]
          ''./output/flop.jpeg'' shelf)) ''./output/flop.jpeg'' =
     Some \<lparr>width = 3, height = 1,
           pixels = [[(228, 130, 130, 100), (90, 90, 90, 100), (130, 130, 130, 100)]]\<rparr> \<and>
   concat3 glass (dot 90) (dot 130) =
     \<lparr>width = 3, height = 1,
      pixels = [[(200, 0, 0, 49), (90, 90, 90, 100), (130, 130, 130, 100)]]\<rparr> \<and>
   fst (combineThree plainP
          [Some (resource ''2h''), Some (resource ''9s''), Some ''tall.jpeg'']
          ''./output/flop.jpeg'' shelf) = Inl PasteError \<and>
   lwip_open plainP (files board) (Some ''./output/flop.jpeg'') = Inr (lwip_create 3 1 white) \<and>
   files (snd (combineThree plainP
          [Some (resource ''2h''), Some (resource ''9s''), Some ''./output/flop.jpeg'']
          ''./output/flop.jpeg'' board)) ''./output/flop.jpeg'' \<noteq>
     Some (encode plainP (concat3 (dot 20) (dot 90) (lwip_create 3 1 white)))"
proof -
  have "map_option width
      (Some (encode plainP (concat3 (dot 20) (dot 90) (lwip_create 3 1 white)))) = Some 5"
    by (simp add: plainP_simps concat3_def dot_def lwip_create_def)
  then have "files (snd (combineThree plainP
          [Some (resource ''2h''), Some (resource ''9s''), Some ''./output/flop.jpeg'']
          ''./output/flop.jpeg'' board)) ''./output/flop.jpeg'' \<noteq>
     Some (encode plainP (concat3 (dot 20) (dot 90) (lwip_create 3 1 white)))"
    using aliased_third_width by auto
  moreover have "encode lossyP (concat3 (dot 20) (dot 90) (dot 130)) =
     \<lparr>width = 3, height = 1,
      pixels = [[(19, 19, 19, 100), (89, 89, 89, 100), (129, 129, 129, 100)]]\<rparr>"
    "concat3 (dot 20) (dot 90) (dot 130) =
     \<lparr>width = 3, height = 1,
      pixels = [[(20, 20, 20, 100), (90, 90, 90, 100), (130, 130, 130, 100)]]\<rparr>"
    "concat3 glass (dot 90) (dot 130) =
     \<lparr>width = 3, height = 1,
      pixels = [[(200, 0, 0, 49), (90, 90, 90, 100), (130, 130, 130, 100)]]\<rparr>"
    by (simp_all add: lossyP_simps worn_def concat3_def dot_def glass_def lwip_create_def)
  ultimately show ?thesis
    using lossy_flop glass_flop tall_flop open_board_flop by blast
qed

subsection \<open>A card without an asset\<close>

text \<open>
  C5, as the code has it. Let the cards be 3, 4 or 5, let \<open>./output\<close> exist or be creatable,
  and let a card that \<open>createBoardImage\<close> opens (any of the three of a flop, the fourth of a
  turn, the fourth or fifth of a river) have no file under \<open>resources/\<close>. Then the promise
  rejects. When the card is opened by the first \<open>combineTwo\<close> (index 0 or 1 of a flop, index 3
  of a turn or river), the rejection is an \<open>ImageOpenError\<close> and no file is written.
\<close>

theorem missing_asset_rejects:
  assumes dir: "existsSync w ''./output'' \<or> mkdirable P ''./output''"
    and idx: "length cards = 3 \<and> i < 3 \<or> length cards = 4 \<and> i = 3 \<or>
              length cards = 5 \<and> (i = 3 \<or> i = 4)"
    and miss: "files w (resource (cards ! i)) = None"
  shows "(\<exists>e. fst (createBoardImage P cards w) = Promise (Inl e)) \<and>
         (i \<noteq> 2 \<and> i \<noteq> 4 \<longrightarrow>
            (\<exists>p. fst (createBoardImage P cards w) = Promise (Inl (ImageOpenError p))) \<and>
            files (snd (createBoardImage P cards w)) = files w)"
proof -
  from ensure_ok [OF dir] obtain w1
    where ens: "ensureOutputDir P w = Inr w1" and fl: "files w1 = files w"
    by blast
  have miss1: "files w1 (resource (cards ! i)) = None"
    using miss fl by simp
  let ?fs = "map (\<lambda>c. Some (resource c)) cards"
  from idx consider
      (flop01) "length cards = 3" "i < 2"
    | (flop2) "length cards = 3" "i = 2"
    | (turn) "length cards = 4" "i = 3"
    | (river3) "length cards = 5" "i = 3"
    | (river4) "length cards = 5" "i = 4"
    by linarith
  then show ?thesis
  proof cases
    case flop01
    then have "i = 0 \<or> i = 1"
      by linarith
    with flop01 have
      "at ?fs 0 = Some (resource (cards ! i)) \<or> at ?fs 1 = Some (resource (cards ! i))"
      by (auto simp: at_map_Some)
    from combineThree_missing_first [OF miss1 this, of P "''./output/flop.jpeg''"] flop01
    show ?thesis
      by (auto simp: createBoardImage_3 [OF ens] settle_def fl)
  next
    case flop2
    then have "at ?fs 2 = Some (resource (cards ! i))"
      by (simp add: at_map_Some)
    from combineThree_missing_last [OF miss1 this, of "''./output/flop.jpeg''" P] flop2
    show ?thesis
      by (auto simp: createBoardImage_3 [OF ens] settle_def)
  next
    case turn
    from combineTwo_missing [OF miss1, of "[Some ''./output/flop.jpeg'', Some (resource (cards ! 3))]"
        P "''./output/turn.jpeg''"] turn
    show ?thesis
      by (auto simp: createBoardImage_4 [OF ens] settle_def fl)
  next
    case river3
    from combineThree_missing_first [OF miss1,
        of "[Some ''./output/flop.jpeg'', Some (resource (cards ! 3)), Some (resource (cards ! 4))]"
        P "''./output/river.jpeg''"] river3
    show ?thesis
      by (auto simp: createBoardImage_5 [OF ens] settle_def fl)
  next
    case river4
    from combineThree_missing_last [OF miss1,
        of "[Some ''./output/flop.jpeg'', Some (resource (cards ! 3)), Some (resource (cards ! 4))]"
        "''./output/river.jpeg''" P] river4
    show ?thesis
      by (auto simp: createBoardImage_5 [OF ens] settle_def numeral_2_eq_2)
  qed
qed

theorem missing_asset_rejects_witness:
  "(\<exists>p. fst (createBoardImage plainP [''2h'', ''Zz'', ''Kd''] deck) =
         Promise (Inl (ImageOpenError p))) \<and>
   files (snd (createBoardImage plainP [''2h'', ''Zz'', ''Kd''] deck)) = files deck \<and>
   (\<exists>e. fst (createBoardImage plainP [''2h'', ''9s'', ''Zz''] deck) = Promise (Inl e))"
  using missing_asset_rejects [of deck plainP "[''2h'', ''Zz'', ''Kd'']" 1]
    missing_asset_rejects [of deck plainP "[''2h'', ''9s'', ''Zz'']" 2]
  by (simp add: deck_exists deck_missing)

text \<open>
  C5 as stated fails: the first three identifiers of a turn are never opened, so a turn
  whose first card has no asset is composed all the same.
\<close>

theorem missing_asset_counterexample:
  "files board (resource ''Zz'') = None \<and>
   fst (createBoardImage plainP [''Zz'', ''9s'', ''Kd'', ''7c''] board) =
     Promise (Inr ''./output/turn.jpeg'')"
proof -
  have "files board (resource ''Zz'') = None"
    by (simp add: board_def deck_missing)
  moreover have "fst (createBoardImage plainP [''Zz'', ''9s'', ''Kd'', ''7c''] board) =
     Promise (Inr ''./output/turn.jpeg'')"
    by (subst createBoardImage_4 [OF ensure_board])
       (simp_all add: settle_def combineTwo_fst twoOutcome_def open_board_flop
          open_board_resource open_deck plainP_simps dot_def lwip_create_def)
  ultimately show ?thesis by simp
qed

subsection \<open>The output of a stage\<close>

text \<open>
  C6, as the code has it. Let the cards be 3, 4 or 5, and let the files the stage reads open
  as images of one common height: the three card assets for a flop; for a turn or a river the
  file \<open>./output/flop.jpeg\<close> of the flop stage and the assets of the new cards (index 3;
  indices 3 and 4). Let \<open>./output\<close> exist or be creatable, the stage's path be writable and
  the codec keep the size of what it stores. Then the promise resolves with the stage's
  fixed path, that path is the one file that changes, and the image it holds is as wide as
  the images read together and as tall as each of them.
\<close>

theorem stage_output:
  assumes len: "length cards \<in> {3, 4, 5}"
    and dir: "existsSync w ''./output'' \<or> mkdirable P ''./output''"
    and ins: "list_all2 (\<lambda>p img. lwip_open P (files w) (Some p) = Inr img)
                (stageInputs cards) imgs"
    and hts: "\<forall>img \<in> set imgs. height img = h"
    and wr: "writable P (stagePath (length cards))"
    and codec: "\<forall>img. \<exists>j. decode P (encode P img) = Some j \<and> width j = width img \<and>
                  height j = height img"
  shows "\<exists>bytes img.
     fst (createBoardImage P cards w) = Promise (Inr (stagePath (length cards))) \<and>
     files (snd (createBoardImage P cards w)) = (files w)(stagePath (length cards) \<mapsto> bytes) \<and>
     decode P bytes = Some img \<and> width img = sum_list (map width imgs) \<and> height img = h"
proof -
  from ensure_ok [OF dir] obtain w1
    where ens: "ensureOutputDir P w = Inr w1" and fl: "files w1 = files w"
    by blast
  from len consider "length cards = 3" | "length cards = 4" | "length cards = 5"
    by auto
  then show ?thesis
  proof cases
    case 1
    then obtain c0 c1 c2 where cards: "cards = [c0, c1, c2]"
      using length3 by blast
    with ins obtain a b c where imgs: "imgs = [a, b, c]"
      and o: "lwip_open P (files w) (Some (resource c0)) = Inr a"
        "lwip_open P (files w) (Some (resource c1)) = Inr b"
        "lwip_open P (files w) (Some (resource c2)) = Inr c"
      by (auto simp: stageInputs_def list_all2_Cons1)
    let ?fs = "map (\<lambda>c. Some (resource c)) cards"
    have "\<exists>bytes img.
       fst (combineThree P ?fs ''./output/flop.jpeg'' w1) = Inr ''./output/flop.jpeg'' \<and>
       files (snd (combineThree P ?fs ''./output/flop.jpeg'' w1)) =
         (files w1)(''./output/flop.jpeg'' \<mapsto> bytes) \<and>
       decode P bytes = Some img \<and> width img = width a + width b + width c \<and> height img = h"
      using o hts wr 1 codec
      by (intro combineThree_stage) (simp_all add: cards imgs fl stagePath_def numeral_2_eq_2)
    then show ?thesis
      using 1 by (auto simp: createBoardImage_3 [OF ens] settle_def stagePath_def imgs fl add.assoc)
  next
    case 2
    then obtain c0 c1 c2 c3 where cards: "cards = [c0, c1, c2, c3]"
      using length4 by blast
    with ins obtain a b where imgs: "imgs = [a, b]"
      and o: "lwip_open P (files w) (Some ''./output/flop.jpeg'') = Inr a"
        "lwip_open P (files w) (Some (resource c3)) = Inr b"
      by (auto simp: stageInputs_def list_all2_Cons1)
    let ?fs = "[Some ''./output/flop.jpeg'', Some (resource (cards ! 3))]"
    have "\<exists>bytes img.
       fst (combineTwo P ?fs ''./output/turn.jpeg'' w1) = Inr ''./output/turn.jpeg'' \<and>
       files (snd (combineTwo P ?fs ''./output/turn.jpeg'' w1)) =
         (files w1)(''./output/turn.jpeg'' \<mapsto> bytes) \<and>
       decode P bytes = Some img \<and> width img = width a + width b \<and> height img = h"
      using o hts wr 2 codec
      by (intro combineTwo_stage) (simp_all add: cards imgs fl stagePath_def)
    then show ?thesis
      using 2 by (simp add: createBoardImage_4 [OF ens] settle_def stagePath_def imgs fl)
  next
    case 3
    then obtain c0 c1 c2 c3 c4 where cards: "cards = [c0, c1, c2, c3, c4]"
      using length5 by blast
    with ins obtain a b c where imgs: "imgs = [a, b, c]"
      and o: "lwip_open P (files w) (Some ''./output/flop.jpeg'') = Inr a"
        "lwip_open P (files w) (Some (resource c3)) = Inr b"
        "lwip_open P (files w) (Some (resource c4)) = Inr c"
      by (auto simp: stageInputs_def list_all2_Cons1)
    let ?fs = "[Some ''./output/flop.jpeg'', Some (resource (cards ! 3)),
                Some (resource (cards ! 4))]"
    have "\<exists>bytes img.
       fst (combineThree P ?fs ''./output/river.jpeg'' w1) = Inr ''./output/river.jpeg'' \<and>
       files (snd (combineThree P ?fs ''./output/river.jpeg'' w1)) =
         (files w1)(''./output/river.jpeg'' \<mapsto> bytes) \<and>
       decode P bytes = Some img \<and> width img = width a + width b + width c \<and> height img = h"
      using o hts wr 3 codec
      by (intro combineThree_stage) (simp_all add: cards imgs fl stagePath_def numeral_2_eq_2)
    then show ?thesis
      using 3 by (auto simp: createBoardImage_5 [OF ens] settle_def stagePath_def imgs fl add.assoc)
  qed
qed

theorem stage_output_witness:
  "(\<exists>bytes img.
      fst (createBoardImage plainP [''2h'', ''9s'', ''Kd''] deck) =
        Promise (Inr ''./output/flop.jpeg'') \<and>
      files (snd (createBoardImage plainP [''2h'', ''9s'', ''Kd''] deck)) =
        (files deck)(''./output/flop.jpeg'' \<mapsto> bytes) \<and>
      decode plainP bytes = Some img \<and> width img = 3 \<and> height img = 1) \<and>
   (\<exists>bytes img.
      fst (createBoardImage plainP [''2h'', ''9s'', ''Kd'', ''7c''] board) =
        Promise (Inr ''./output/turn.jpeg'') \<and>
      files (snd (createBoardImage plainP [''2h'', ''9s'', ''Kd'', ''7c''] board)) =
        (files board)(''./output/turn.jpeg'' \<mapsto> bytes) \<and>
      decode plainP bytes = Some img \<and> width img = 4 \<and> height img = 1) \<and>
   (\<exists>bytes img.
      fst (createBoardImage plainP [''2h'', ''9s'', ''Kd'', ''7c'', ''As''] board) =
        Promise (Inr ''./output/river.jpeg'') \<and>
      files (snd (createBoardImage plainP [''2h'', ''9s'', ''Kd'', ''7c'', ''As''] board)) =
        (files board)(''./output/river.jpeg'' \<mapsto> bytes) \<and>
      decode plainP bytes = Some img \<and> width img = 5 \<and> height img = 1)"
proof -
  have codec: "\<forall>img. \<exists>j. decode plainP (encode plainP img) = Some j \<and> width j = width img \<and>
      height j = height img"
    by (simp add: plainP_simps)
  have hd: "height (dot g) = 1" "width (dot g) = 1" for g
    by (simp_all add: dot_def lwip_create_def)
  have hc: "height (lwip_create m n col) = n" "width (lwip_create m n col) = m" for m n col
    by (simp_all add: lwip_create_def)
  have flop: "\<exists>bytes img.
      fst (createBoardImage plainP [''2h'', ''9s'', ''Kd''] deck) =
        Promise (Inr (stagePath (length [''2h'', ''9s'', ''Kd'']))) \<and>
      files (snd (createBoardImage plainP [''2h'', ''9s'', ''Kd''] deck)) =
        (files deck)(stagePath (length [''2h'', ''9s'', ''Kd'']) \<mapsto> bytes) \<and>
      decode plainP bytes = Some img \<and>
      width img = sum_list (map width [dot 20, dot 90, dot 130]) \<and> height img = 1"
    using codec
    by (intro stage_output)
       (simp_all add: deck_exists stageInputs_def open_deck hd plainP_simps)
  have turn: "\<exists>bytes img.
      fst (createBoardImage plainP [''2h'', ''9s'', ''Kd'', ''7c''] board) =
        Promise (Inr (stagePath (length [''2h'', ''9s'', ''Kd'', ''7c'']))) \<and>
      files (snd (createBoardImage plainP [''2h'', ''9s'', ''Kd'', ''7c''] board)) =
        (files board)(stagePath (length [''2h'', ''9s'', ''Kd'', ''7c'']) \<mapsto> bytes) \<and>
      decode plainP bytes = Some img \<and>
      width img = sum_list (map width [lwip_create 3 1 white, dot 70]) \<and> height img = 1"
    using codec
    by (intro stage_output)
       (simp_all add: deck_exists stageInputs_def open_deck open_board_flop open_board_resource
          hd hc plainP_simps)
  have river: "\<exists>bytes img.
      fst (createBoardImage plainP [''2h'', ''9s'', ''Kd'', ''7c'', ''As''] board) =
        Promise (Inr (stagePath (length [''2h'', ''9s'', ''Kd'', ''7c'', ''As'']))) \<and>
      files (snd (createBoardImage plainP [''2h'', ''9s'', ''Kd'', ''7c'', ''As''] board)) =
        (files board)(stagePath (length [''2h'', ''9s'', ''Kd'', ''7c'', ''As'']) \<mapsto> bytes) \<and>
      decode plainP bytes = Some img \<and>
      width img = sum_list (map width [lwip_create 3 1 white, dot 70, dot 10]) \<and>
      height img = 1"
    using codec
    by (intro stage_output)
       (simp_all add: deck_exists stageInputs_def open_deck open_board_flop open_board_resource
          hd hc plainP_simps)
  from flop turn river show ?thesis
    by (simp add: stagePath_def hd hc eval_nat_numeral)
qed

text \<open>
  C6 as stated fails: with every card asset present and of one height but no flop file yet,
  a turn and a river reject at their first open and write nothing. Nor is a file produced
  when the stage's path cannot be written or \<open>./output\<close> cannot be made.
\<close>

theorem stage_output_counterexample:
  "lwip_open plainP (files deck) (Some (resource ''2h'')) = Inr (dot 20) \<and>
   lwip_open plainP (files deck) (Some (resource ''9s'')) = Inr (dot 90) \<and>
   lwip_open plainP (files deck) (Some (resource ''Kd'')) = Inr (dot 130) \<and>
   lwip_open plainP (files deck) (Some (resource ''7c'')) = Inr (dot 70) \<and>
   lwip_open plainP (files deck) (Some (resource ''As'')) = Inr (dot 10) \<and>
   files deck ''./output/flop.jpeg'' = None \<and>
   createBoardImage plainP [''2h'', ''9s'', ''Kd'', ''7c''] deck =
     (Promise (Inl (ImageOpenError (Some ''./output/flop.jpeg''))),
      deck\<lparr>calls := [Open (Some ''./output/flop.jpeg'')]\<rparr>) \<and>
   createBoardImage plainP [''2h'', ''9s'', ''Kd'', ''7c'', ''As''] deck =
     (Promise (Inl (ImageOpenError (Some ''./output/flop.jpeg''))),
      deck\<lparr>calls := [Open (Some ''./output/flop.jpeg'')]\<rparr>) \<and>
   fst (createBoardImage (plainP\<lparr>writable := \<lambda>p. False\<rparr>) [''2h'', ''9s'', ''Kd''] deck) =
     Promise (Inl (WriteError ''./output/flop.jpeg'')) \<and>
   files (snd (createBoardImage (plainP\<lparr>writable := \<lambda>p. False\<rparr>) [''2h'', ''9s'', ''Kd''] deck))
     = files deck \<and>
   createBoardImage (plainP\<lparr>mkdirable := \<lambda>p. False\<rparr>) [''2h'', ''9s'', ''Kd'']
       (deck\<lparr>dirs := {}\<rparr>) =
     (Threw (MkdirError ''./output''), deck\<lparr>dirs := {}\<rparr>)"
proof -
  have none: "files deck ''./output/flop.jpeg'' = None"
    by (simp add: deck_def resource_def)
  then have noflop: "lwip_open plainP (files deck) (Some ''./output/flop.jpeg'') =
      Inl (ImageOpenError (Some ''./output/flop.jpeg''))"
    by (rule open_missing)
  have c: "calls deck = []"
    by (simp add: deck_def)
  have turn: "createBoardImage plainP [''2h'', ''9s'', ''Kd'', ''7c''] deck =
     (Promise (Inl (ImageOpenError (Some ''./output/flop.jpeg''))),
      deck\<lparr>calls := [Open (Some ''./output/flop.jpeg'')]\<rparr>)"
    by (subst createBoardImage_4 [OF ensure_deck])
       (simp_all add: settle_def combineTwo_closed noflop c)
  have river: "createBoardImage plainP [''2h'', ''9s'', ''Kd'', ''7c'', ''As''] deck =
     (Promise (Inl (ImageOpenError (Some ''./output/flop.jpeg''))),
      deck\<lparr>calls := [Open (Some ''./output/flop.jpeg'')]\<rparr>)"
    by (subst createBoardImage_5 [OF ensure_deck])
       (simp_all add: settle_def combineThree_seq combineTwo_closed noflop c)
  have p: "lwip_open (plainP\<lparr>writable := \<lambda>p. False\<rparr>) fls f = lwip_open plainP fls f" for fls f
    by (simp add: lwip_open_def cong: option.case_cong)
  have ro: "twoOutcome (plainP\<lparr>writable := \<lambda>p. False\<rparr>) (files deck)
      [Some (resource ''2h''), Some (resource ''9s''), Some (resource ''Kd'')]
      ''./output/flop.jpeg'' = Inl (WriteError ''./output/flop.jpeg'')"
    by (simp add: twoOutcome_def p open_deck dot_size)
  have unwritable:
    "fst (createBoardImage (plainP\<lparr>writable := \<lambda>p. False\<rparr>) [''2h'', ''9s'', ''Kd''] deck) =
       Promise (Inl (WriteError ''./output/flop.jpeg''))"
    by (subst createBoardImage_3 [OF ensure_deck])
       (simp_all add: settle_def combineThree_fst ro)
  have unchanged:
    "files (snd (createBoardImage (plainP\<lparr>writable := \<lambda>p. False\<rparr>) [''2h'', ''9s'', ''Kd''] deck))
       = files deck"
    by (subst createBoardImage_3 [OF ensure_deck])
       (simp_all add: settle_def combineThree_files ro)
  have nodir: "createBoardImage (plainP\<lparr>mkdirable := \<lambda>p. False\<rparr>) [''2h'', ''9s'', ''Kd'']
       (deck\<lparr>dirs := {}\<rparr>) =
     (Threw (MkdirError ''./output''), deck\<lparr>dirs := {}\<rparr>)"
    by (rule createBoardImage_threw)
       (simp add: ensureOutputDir_def existsSync_def mkdirSync_def deck_def resource_def)
  from none turn river unwritable unchanged nodir show ?thesis
    by (simp only: open_deck)
qed

subsection \<open>Failures\<close>

text \<open>
  C7. The pipeline stops at the first step that fails and its error is the result: a failed
  open of the first file is followed by no other call, a failed open of the second by none
  after it, a refused paste by no write, and a failed write leaves the files as they were;
  when the first \<open>combineTwo\<close> of \<open>combineThree\<close> rejects, the second does not run, and when
  the second rejects, its error is the result. Every call appears once in the list of calls:
  nothing is retried. A promise of the model has one settled value, so each operation
  resolves or rejects once.
\<close>

theorem first_failure_propagates:
  "(lwip_open P (files w) (at fs 0) = Inl e \<longrightarrow>
      combineTwo P fs out w = (Inl e, w\<lparr>calls := calls w @ [Open (at fs 0)]\<rparr>)) \<and>
   (lwip_open P (files w) (at fs 0) = Inr a \<and> lwip_open P (files w) (at fs 1) = Inl e \<longrightarrow>
      combineTwo P fs out w =
        (Inl e, w\<lparr>calls := calls w @ [Open (at fs 0), Open (at fs 1)]\<rparr>)) \<and>
   (lwip_open P (files w) (at fs 0) = Inr a \<and> lwip_open P (files w) (at fs 1) = Inr b \<and>
    height a < height b \<longrightarrow>
      combineTwo P fs out w =
        (Inl PasteError,
         w\<lparr>calls := calls w @
            [Open (at fs 0), Open (at fs 1), Create (width a + width b) (height a) white,
             Paste 0 0, Paste (width a) 0]\<rparr>)) \<and>
   (lwip_open P (files w) (at fs 0) = Inr a \<and> lwip_open P (files w) (at fs 1) = Inr b \<and>
    height b \<le> height a \<and> \<not> writable P out \<longrightarrow>
      combineTwo P fs out w =
        (Inl (WriteError out),
         w\<lparr>calls := calls w @
            [Open (at fs 0), Open (at fs 1), Create (width a + width b) (height a) white,
             Paste 0 0, Paste (width a) 0, Write out]\<rparr>)) \<and>
   (combineTwo P (take 2 fs) out w = (Inl e, w1) \<longrightarrow>
      combineThree P fs out w = (Inl e, w1)) \<and>
   (combineTwo P (take 2 fs) out w = (Inr v, w1) \<and>
    combineTwo P [Some out, at fs 2] out w1 = (Inl e, w2) \<longrightarrow>
      combineThree P fs out w = (Inl e, w2)) \<and>
   (fst (combineTwo P fs out w) = Inl e \<longrightarrow> files (snd (combineTwo P fs out w)) = files w)"
  by (simp add: combineTwo_closed combineThree_seq combineTwo_fst combineTwo_files
      split: sum.splits)

theorem first_failure_propagates_witness:
  "combineTwo plainP [Some (resource ''Zz''), Some (resource ''2h'')] ''./output/x.jpeg'' deck =
     (Inl (ImageOpenError (Some (resource ''Zz''))),
      deck\<lparr>calls := [Open (Some (resource ''Zz''))]\<rparr>) \<and>
   combineTwo plainP [Some (resource ''2h''), Some (resource ''Zz'')] ''./output/x.jpeg'' deck =
     (Inl (ImageOpenError (Some (resource ''Zz''))),
      deck\<lparr>calls := [Open (Some (resource ''2h'')), Open (Some (resource ''Zz''))]\<rparr>) \<and>
   combineTwo plainP [Some (resource ''2h''), Some ''tall.jpeg''] ''./output/x.jpeg''
       (deck\<lparr>files := (files deck)(''tall.jpeg'' \<mapsto> lwip_create 1 2 white)\<rparr>) =
     (Inl PasteError,
      deck\<lparr>files := (files deck)(''tall.jpeg'' \<mapsto> lwip_create 1 2 white),
           calls := [Open (Some (resource ''2h'')), Open (Some ''tall.jpeg''),
                     Create 2 1 white, Paste 0 0, Paste 1 0]\<rparr>) \<and>
   combineTwo (plainP\<lparr>writable := \<lambda>p. False\<rparr>)
       [Some (resource ''2h''), Some (resource ''9s'')] ''./output/x.jpeg'' deck =
     (Inl (WriteError ''./output/x.jpeg''),
      deck\<lparr>calls := [Open (Some (resource ''2h'')), Open (Some (resource ''9s'')),
                     Create 2 1 white, Paste 0 0, Paste 1 0, Write ''./output/x.jpeg'']\<rparr>) \<and>
   combineThree plainP [Some (resource ''Zz''), Some (resource ''2h''), Some (resource ''9s'')]
       ''./output/x.jpeg'' deck =
     (Inl (ImageOpenError (Some (resource ''Zz''))),
      deck\<lparr>calls := [Open (Some (resource ''Zz''))]\<rparr>)"
proof -
  have c: "calls deck = []"
    by (simp add: deck_def)
  have A: "combineTwo plainP [Some (resource ''Zz''), Some (resource ''2h'')]
      ''./output/x.jpeg'' deck =
     (Inl (ImageOpenError (Some (resource ''Zz''))),
      deck\<lparr>calls := [Open (Some (resource ''Zz''))]\<rparr>)"
    using first_failure_propagates
      [where P = plainP and w = deck and out = "''./output/x.jpeg''"
         and fs = "[Some (resource ''Zz''), Some (resource ''2h'')]"
         and e = "ImageOpenError (Some (resource ''Zz''))"]
    by (simp add: open_deck c)
  have B: "combineTwo plainP [Some (resource ''2h''), Some (resource ''Zz'')]
      ''./output/x.jpeg'' deck =
     (Inl (ImageOpenError (Some (resource ''Zz''))),
      deck\<lparr>calls := [Open (Some (resource ''2h'')), Open (Some (resource ''Zz''))]\<rparr>)"
    using first_failure_propagates
      [where P = plainP and w = deck and out = "''./output/x.jpeg''"
         and fs = "[Some (resource ''2h''), Some (resource ''Zz'')]"
         and e = "ImageOpenError (Some (resource ''Zz''))" and a = "dot 20"]
    by (simp add: open_deck c)
  let ?tall = "deck\<lparr>files := (files deck)(''tall.jpeg'' \<mapsto> lwip_create 1 2 white)\<rparr>"
  have t1: "lwip_open plainP (files ?tall) (Some (resource ''2h'')) = Inr (dot 20)"
    and t2: "lwip_open plainP (files ?tall) (Some ''tall.jpeg'') = Inr (lwip_create 1 2 white)"
    by (simp_all add: lwip_open_def deck_def plainP_def resource_def)
  have C: "combineTwo plainP [Some (resource ''2h''), Some ''tall.jpeg''] ''./output/x.jpeg'' ?tall =
     (Inl PasteError,
      deck\<lparr>files := (files deck)(''tall.jpeg'' \<mapsto> lwip_create 1 2 white),
           calls := [Open (Some (resource ''2h'')), Open (Some ''tall.jpeg''),
                     Create 2 1 white, Paste 0 0, Paste 1 0]\<rparr>)"
    using first_failure_propagates
      [where P = plainP and w = ?tall and out = "''./output/x.jpeg''"
         and fs = "[Some (resource ''2h''), Some ''tall.jpeg'']"
         and a = "dot 20" and b = "lwip_create 1 2 white"] t1 t2
    by (simp add: c dot_def lwip_create_def)
  have p: "lwip_open (plainP\<lparr>writable := \<lambda>p. False\<rparr>) (files deck) f =
      lwip_open plainP (files deck) f" for f
    by (simp add: lwip_open_def cong: option.case_cong)
  have D: "combineTwo (plainP\<lparr>writable := \<lambda>p. False\<rparr>)
       [Some (resource ''2h''), Some (resource ''9s'')] ''./output/x.jpeg'' deck =
     (Inl (WriteError ''./output/x.jpeg''),
      deck\<lparr>calls := [Open (Some (resource ''2h'')), Open (Some (resource ''9s'')),
                     Create 2 1 white, Paste 0 0, Paste 1 0, Write ''./output/x.jpeg'']\<rparr>)"
    using first_failure_propagates
      [where P = "plainP\<lparr>writable := \<lambda>p. False\<rparr>" and w = deck
         and out = "''./output/x.jpeg''"
         and fs = "[Some (resource ''2h''), Some (resource ''9s'')]"
         and a = "dot 20" and b = "dot 90"]
    by (simp add: p open_deck c dot_def lwip_create_def)
  have E: "combineThree plainP [Some (resource ''Zz''), Some (resource ''2h''), Some (resource ''9s'')]
       ''./output/x.jpeg'' deck =
     (Inl (ImageOpenError (Some (resource ''Zz''))),
      deck\<lparr>calls := [Open (Some (resource ''Zz''))]\<rparr>)"
    using first_failure_propagates
      [where P = plainP and w = deck and out = "''./output/x.jpeg''"
         and fs = "[Some (resource ''Zz''), Some (resource ''2h''), Some (resource ''9s'')]"
         and e = "ImageOpenError (Some (resource ''Zz''))"
         and ?w1.0 = "deck\<lparr>calls := [Open (Some (resource ''Zz''))]\<rparr>"] A
    by simp
  from A B C D E show ?thesis by blast
qed

subsection \<open>Running a stage twice\<close>

text \<open>
  C8. Running \<open>createBoardImage\<close> a second time on the same cards, in the world the first run
  left, gives the same outcome and leaves every file as the first run left it; in particular
  the output file holds the same bytes. The codec is a function, hence deterministic.
\<close>

theorem rerun_same_output:
  "fst (createBoardImage P cards (snd (createBoardImage P cards w))) =
     fst (createBoardImage P cards w) \<and>
   files (snd (createBoardImage P cards (snd (createBoardImage P cards w)))) =
     files (snd (createBoardImage P cards w))"
proof -
  consider e where "ensureOutputDir P w = Inl e"
    | w1 where "ensureOutputDir P w = Inr w1" "existsSync w1 ''./output''"
    using ensure_cases [of P w] by blast
  then show ?thesis
  proof cases
    case 1
    then show ?thesis by (simp add: createBoardImage_threw)
  next
    case 2
    note ens = this
    consider "length cards = 3" | "length cards = 4" | "length cards = 5"
      | "length cards \<noteq> 3" "length cards \<noteq> 4" "length cards \<noteq> 5"
      by blast
    then show ?thesis
    proof cases
      case 1
      let ?fs = "map (\<lambda>c. Some (resource c)) cards"
      let ?r = "combineThree P ?fs ''./output/flop.jpeg'' w1"
      have r1: "createBoardImage P cards w = settle ?r"
        using 1 ens by (simp add: createBoardImage_3)
      have "ensureOutputDir P (snd ?r) = Inr (snd ?r)"
        using ens by (simp add: ensure_exists combineThree_exists)
      then have r2: "createBoardImage P cards (snd ?r) =
          settle (combineThree P ?fs ''./output/flop.jpeg'' (snd ?r))"
        using 1 by (simp add: createBoardImage_3)
      have "fst (combineThree P ?fs ''./output/flop.jpeg'' (snd ?r)) = fst ?r \<and>
            files (snd (combineThree P ?fs ''./output/flop.jpeg'' (snd ?r))) = files (snd ?r)"
        using 1 by (intro combineThree_again) (simp_all add: at_map_Some)
      then show ?thesis by (simp add: r1 r2 settle_def)
    next
      case 2
      let ?fs = "[Some ''./output/flop.jpeg'', Some (resource (cards ! 3))]"
      let ?r = "combineTwo P ?fs ''./output/turn.jpeg'' w1"
      have r1: "createBoardImage P cards w = settle ?r"
        using 2 ens by (simp add: createBoardImage_4)
      have "ensureOutputDir P (snd ?r) = Inr (snd ?r)"
        using ens by (simp add: ensure_exists combineTwo_exists)
      then have r2: "createBoardImage P cards (snd ?r) =
          settle (combineTwo P ?fs ''./output/turn.jpeg'' (snd ?r))"
        using 2 by (simp add: createBoardImage_4)
      have "fst (combineTwo P ?fs ''./output/turn.jpeg'' (snd ?r)) = fst ?r \<and>
            files (snd (combineTwo P ?fs ''./output/turn.jpeg'' (snd ?r))) = files (snd ?r)"
        by (intro combineTwo_again) simp_all
      then show ?thesis by (simp add: r1 r2 settle_def)
    next
      case 3
      let ?fs = "[Some ''./output/flop.jpeg'', Some (resource (cards ! 3)),
                  Some (resource (cards ! 4))]"
      let ?r = "combineThree P ?fs ''./output/river.jpeg'' w1"
      have r1: "createBoardImage P cards w = settle ?r"
        using 3 ens by (simp add: createBoardImage_5)
      have "ensureOutputDir P (snd ?r) = Inr (snd ?r)"
        using ens by (simp add: ensure_exists combineThree_exists)
      then have r2: "createBoardImage P cards (snd ?r) =
          settle (combineThree P ?fs ''./output/river.jpeg'' (snd ?r))"
        using 3 by (simp add: createBoardImage_5)
      have "fst (combineThree P ?fs ''./output/river.jpeg'' (snd ?r)) = fst ?r \<and>
            files (snd (combineThree P ?fs ''./output/river.jpeg'' (snd ?r))) = files (snd ?r)"
        by (intro combineThree_again) (simp_all add: numeral_2_eq_2)
      then show ?thesis by (simp add: r1 r2 settle_def)
    next
      case 4
      then show ?thesis
        using ens by (simp add: createBoardImage_other ensure_exists)
    qed
  qed
qed

subsection \<open>The cards that are not read\<close>

text \<open>
  C9. For four cards, and for five, the result does not depend on the first three
  identifiers: two calls of the same length that agree from index 3 on, in the same world,
  give the same outcome and the same world.
\<close>

theorem leading_cards_unread:
  assumes "length cards = length cards'"
    and "length cards = 4 \<or> length cards = 5"
    and "drop 3 cards = drop 3 cards'"
  shows "createBoardImage P cards w = createBoardImage P cards' w"
proof -
  have "drop 3 cards ! 0 = drop 3 cards' ! 0" "drop 3 cards ! 1 = drop 3 cards' ! 1"
    using assms(3) by simp_all
  then have n3: "cards ! 3 = cards' ! 3" and n4: "length cards = 5 \<Longrightarrow> cards ! 4 = cards' ! 4"
    using assms(1,2) by auto
  show ?thesis
  proof (cases "ensureOutputDir P w")
    case (Inl e)
    then show ?thesis by (simp add: createBoardImage_threw)
  next
    case (Inr w1)
    from assms(2) show ?thesis
    proof
      assume "length cards = 4"
      then show ?thesis using Inr assms(1) n3 by (simp add: createBoardImage_4)
    next
      assume "length cards = 5"
      then show ?thesis using Inr assms(1) n3 n4 by (simp add: createBoardImage_5)
    qed
  qed
qed

theorem leading_cards_unread_witness:
  "createBoardImage plainP [''2h'', ''9s'', ''Kd'', ''7c''] board =
   createBoardImage plainP [''As'', ''As'', ''As'', ''7c''] board"
  using leading_cards_unread
    [of "[''2h'', ''9s'', ''Kd'', ''7c'']" "[''As'', ''As'', ''As'', ''7c'']" plainP board]
  by simp

subsection \<open>The resolved value\<close>

text \<open>
  C10. Whenever the promise of \<open>combineTwo\<close> or of \<open>combineThree\<close> resolves, its value is
  the \<open>outputFile\<close> path that was written: \<open>writeFile\<close> resolves with the path, and the last
  step of \<open>combineThree\<close> is a \<open>combineTwo\<close> to the same path.
\<close>

theorem resolves_with_outputFile:
  "(\<forall>v. fst (combineTwo P fs out w) = Inr v \<longrightarrow> v = out) \<and>
   (\<forall>v. fst (combineThree P fs out w) = Inr v \<longrightarrow> v = out)"
  by (auto simp: combineThree_seq combineTwo_fst twoOutcome_def split: sum.splits prod.splits if_splits)

theorem resolves_with_outputFile_witness:
  "fst (combineTwo plainP [Some (resource ''2h''), Some (resource ''9s'')] ''./output/x.jpeg'' deck)
     = Inr ''./output/x.jpeg'' \<and>
   fst (combineThree plainP
          [Some (resource ''2h''), Some (resource ''9s''), Some (resource ''Kd'')]
          ''./output/x.jpeg'' deck)
     = Inr ''./output/x.jpeg''"
proof -
  have two: "\<exists>v. fst (combineTwo plainP [Some (resource ''2h''), Some (resource ''9s'')]
      ''./output/x.jpeg'' deck) = Inr v"
    by (simp add: combineTwo_fst twoOutcome_def lwip_open_def deck_def plainP_def resource_def
        dot_def lwip_create_def)
  have three: "\<exists>v. fst (combineThree plainP
      [Some (resource ''2h''), Some (resource ''9s''), Some (resource ''Kd'')]
      ''./output/x.jpeg'' deck) = Inr v"
    by (simp add: combineThree_fst twoOutcome_def lwip_open_def deck_def plainP_def resource_def
        dot_def lwip_create_def beside_def at_def)
  from two three show ?thesis
    using resolves_with_outputFile
      [of plainP "[Some (resource ''2h''), Some (resource ''9s'')]" "''./output/x.jpeg''" deck]
      resolves_with_outputFile
      [of plainP "[Some (resource ''2h''), Some (resource ''9s''), Some (resource ''Kd'')]"
        "''./output/x.jpeg''" deck]
    by auto
qed

end
